theory Spec2Isabelle
  imports Complex_Main "HOL-Library.Sublist" "HOL-Library.Log_Nat"
begin

section \<open>Python values\<close>

text \<open>
  A Python float is an IEEE double: a finite value, an infinity or NaN. \<open>Fin r\<close> is the
  double whose exact value is \<open>r\<close>; the theorems below hold for every real \<open>r\<close>, so in
  particular for the doubles. Every comparison with NaN is false.
\<close>

datatype pyfloat = Fin real | PosInf | NegInf | NaN

fun flt :: "pyfloat \<Rightarrow> pyfloat \<Rightarrow> bool" where
  "flt (Fin a) (Fin b) = (a < b)"
| "flt (Fin a) PosInf = True"
| "flt NegInf (Fin b) = True"
| "flt NegInf PosInf = True"
| "flt a b = False"

definition fgt :: "pyfloat \<Rightarrow> pyfloat \<Rightarrow> bool" where
  "fgt a b = flt b a"

fun fle :: "pyfloat \<Rightarrow> pyfloat \<Rightarrow> bool" where
  "fle (Fin a) (Fin b) = (a \<le> b)"
| "fle (Fin a) PosInf = True"
| "fle NegInf (Fin b) = True"
| "fle NegInf PosInf = True"
| "fle NegInf NegInf = True"
| "fle PosInf PosInf = True"
| "fle a b = False"

text \<open>
  The values a field of a report (a JSON object) can hold: \<open>None\<close> (also what
  \<^verbatim>\<open>report.get\<close> gives for a missing key), a boolean, an integer, a float, a string,
  or a list or dictionary.
\<close>

datatype pyval = PNone | PBool bool | PInt int | PFloat pyfloat | PStr string | PObj

text \<open>
  \<^verbatim>\<open>float(n)\<close> for an integer: the nearest double, ties to even, and OverflowError
  (here \<open>None\<close>) when that is \<open>2 ^ 1024\<close> or more. \<open>bitlen\<close> is \<^verbatim>\<open>int.bit_length\<close>.
\<close>

definition float_of_int :: "int \<Rightarrow> pyfloat option" where
  "float_of_int n =
     (if \<bar>n\<bar> \<le> 2 ^ 53 then Some (Fin (real_of_int n))
      else
        let a = \<bar>n\<bar>;
            sh = nat (bitlen a - 53);
            q = a div 2 ^ sh;
            r = a mod 2 ^ sh;
            q' = (if 2 * r > 2 ^ sh \<or> (2 * r = 2 ^ sh \<and> odd q) then q + 1 else q);
            m = q' * 2 ^ sh
        in if m \<ge> 2 ^ 1024 then None
           else Some (Fin (real_of_int (if n < 0 then - m else m))))"

text \<open>
  The builtin \<^verbatim>\<open>float\<close>, with \<open>None\<close> where it raises. What it makes of a string is
  a parameter, \<open>parse\<close> (\<open>None\<close> for ValueError).
\<close>

fun py_float :: "(string \<Rightarrow> pyfloat option) \<Rightarrow> pyval \<Rightarrow> pyfloat option" where
  "py_float parse PNone = None"
| "py_float parse (PBool b) = Some (Fin (if b then 1 else 0))"
| "py_float parse (PInt n) = float_of_int n"
| "py_float parse (PFloat f) = Some f"
| "py_float parse (PStr s) = parse s"
| "py_float parse PObj = None"

text \<open>\<^verbatim>\<open>sub in s\<close> on strings: \<open>sub\<close> occurs in \<open>s\<close> as a contiguous block.\<close>

fun str_in :: "string \<Rightarrow> string \<Rightarrow> bool" where
  "str_in sub [] = (sub = [])"
| "str_in sub (c # cs) = (prefix sub (c # cs) \<or> str_in sub cs)"

text \<open>
  \<^verbatim>\<open>str.lower\<close>, on the ASCII letters. A string is its UTF-8 bytes; bytes from 128 on
  are left alone. The keyword tests of the scorer do not see the difference: the only
  non-ASCII characters whose lower case holds an ASCII letter give \<open>k\<close>, or an \<open>i\<close>
  followed by a combining dot, and no keyword has a \<open>k\<close> or ends in \<open>i\<close>.
\<close>

definition lower_char :: "char \<Rightarrow> char" where
  "lower_char c =
     (let n = (of_char c :: nat) in if 65 \<le> n \<and> n \<le> 90 then char_of (n + 32) else c)"

definition lower :: "string \<Rightarrow> string" where
  "lower s = map lower_char s"

section \<open>The report scorer\<close>

text \<open>
  The table \<^verbatim>\<open>SAFE\<close>. Its entries are floats: \<^verbatim>\<open>0.01\<close> is the double
  \<open>0x3F847AE147AE147B\<close>, whose value is \<open>5764607523034235 / 2 ^ 59\<close>; the other
  entries are doubles exactly.
\<close>

definition SAFE_pH_min :: pyfloat where "SAFE_pH_min = Fin 6.5"
definition SAFE_pH_max :: pyfloat where "SAFE_pH_max = Fin 8.5"
definition SAFE_turbidity_ideal :: pyfloat where "SAFE_turbidity_ideal = Fin 1.0"
definition SAFE_turbidity_max :: pyfloat where "SAFE_turbidity_max = Fin 5.0"
definition SAFE_ecoli :: pyfloat where "SAFE_ecoli = Fin 0.0"
definition SAFE_coliforms :: pyfloat where "SAFE_coliforms = Fin 0.0"
definition SAFE_hpc_max :: pyfloat where "SAFE_hpc_max = Fin 500.0"
definition SAFE_arsenic_max :: pyfloat where "SAFE_arsenic_max = Fin (5764607523034235 / 2 ^ 59)"
definition SAFE_fluoride_max :: pyfloat where "SAFE_fluoride_max = Fin 1.5"
definition SAFE_nitrate_max :: pyfloat where "SAFE_nitrate_max = Fin 45.0"
definition SAFE_lead_max :: pyfloat where "SAFE_lead_max = Fin (5764607523034235 / 2 ^ 59)"

definition SYMPTOM_KEYS :: "string list" where
  "SYMPTOM_KEYS = [''fever'', ''diarrhea'', ''vomit'', ''vomiting'', ''jaundice'',
                   ''abdominal pain'', ''stomach pain'', ''nausea'']"

definition get_float :: "(string \<Rightarrow> pyfloat option) \<Rightarrow> pyval \<Rightarrow> pyfloat \<Rightarrow> pyfloat" where
  "get_float parse v dflt =
     (if v = PNone \<or> v = PStr '''' \<or> v = PStr ''null'' then dflt
      else case py_float parse v of Some f \<Rightarrow> f | None \<Rightarrow> dflt)"

text \<open>\<^verbatim>\<open>x or d\<close>, for \<open>x\<close> a string or \<open>None\<close>: both \<open>None\<close> and the empty string are false.\<close>

definition str_or :: "string option \<Rightarrow> string \<Rightarrow> string" where
  "str_or x d = (case x of None \<Rightarrow> d | Some s \<Rightarrow> if s = '''' then d else s)"

text \<open>
  A report. \<open>location\<close> and \<open>symptoms\<close> are text or absent (\<open>None\<close>), as the
  docstring of \<^verbatim>\<open>score_and_infer\<close> has them; the measurements are whatever the JSON
  held.
\<close>

record report =
  location :: "string option"
  symptoms :: "string option"
  pH :: pyval
  turbidity :: pyval
  bacteria_count :: pyval
  coliforms :: pyval
  hpc :: pyval
  arsenic :: pyval
  fluoride :: pyval
  nitrate :: pyval
  lead :: pyval

text \<open>The local variables \<^verbatim>\<open>score\<close>, \<^verbatim>\<open>issues\<close> and \<^verbatim>\<open>diseases\<close>.\<close>

record vars =
  score :: int
  issues :: "string list"
  diseases :: "string list"

text \<open>
  One \<^verbatim>\<open>if c: score += pts; issues.append(..); diseases.append(..)\<close> block; \<open>is\<close> and
  \<open>ds\<close> are what the block appends.
\<close>

definition rule :: "bool \<Rightarrow> int \<Rightarrow> string list \<Rightarrow> string list \<Rightarrow> vars \<Rightarrow> vars" where
  "rule c pts is ds v =
     (if c then \<lparr>score = score v + pts, issues = issues v @ is, diseases = diseases v @ ds\<rparr>
      else v)"

text \<open>The \<^verbatim>\<open>if\<close>/\<^verbatim>\<open>elif\<close>/\<^verbatim>\<open>elif\<close> chain on turbidity.\<close>

definition turbidity_rule :: "pyfloat \<Rightarrow> vars \<Rightarrow> vars" where
  "turbidity_rule turb v =
     (if fgt turb (Fin 30) then
        rule True 4 [''Very high turbidity''] [''Pathogens likely; chlorination failure''] v
      else if fgt turb SAFE_turbidity_max then
        rule True 2 [''High turbidity''] [''Pathogens may survive; diarrhea risk''] v
      else if fgt turb SAFE_turbidity_ideal then
        rule True 0 [''Turbidity above ideal''] [] v
      else v)"

text \<open>\<^verbatim>\<open>if d not in diseases: diseases.append(d)\<close>\<close>

definition ensure :: "string \<Rightarrow> string list \<Rightarrow> string list" where
  "ensure d ds = (if d \<notin> set ds then ds @ [d] else ds)"

text \<open>The two coupling blocks (lines 118 to 124); they touch \<^verbatim>\<open>diseases\<close> only.\<close>

definition couple_diarrhea :: "bool \<Rightarrow> vars \<Rightarrow> vars" where
  "couple_diarrhea c v =
     (if c then
        v\<lparr>diseases := ensure ''Gastroenteritis'' (ensure ''Typhoid'' (ensure ''Cholera'' (diseases v)))\<rparr>
      else v)"

definition couple_jaundice :: "bool \<Rightarrow> vars \<Rightarrow> vars" where
  "couple_jaundice c v = (if c then v\<lparr>diseases := ensure ''Hepatitis A'' (diseases v)\<rparr> else v)"

text \<open>The de-duplication loop, with its variables \<^verbatim>\<open>seen\<close> and \<^verbatim>\<open>diseases_unique\<close>.\<close>

fun dedup_loop :: "string list \<Rightarrow> string set \<Rightarrow> string list \<Rightarrow> string list" where
  "dedup_loop [] seen diseases_unique = diseases_unique"
| "dedup_loop (d # ds) seen diseases_unique =
     (if d \<notin> seen then dedup_loop ds (insert d seen) (diseases_unique @ [d])
      else dedup_loop ds seen diseases_unique)"

definition risk_bucket :: "int \<Rightarrow> string" where
  "risk_bucket s = (if s \<ge> 6 then ''High'' else if s \<ge> 3 then ''Medium'' else ''Low'')"

record result =
  location :: string
  score :: int
  risk_level :: string
  issues_found :: "string list"
  likely_diseases :: "string list"

text \<open>
  Lines 41 to 52, but for \<^verbatim>\<open>loc\<close>: the lower-cased symptom text and the nine
  measurements, read with their defaults.
\<close>

type_synonym inputs =
  "string \<times> pyfloat \<times> pyfloat \<times> pyfloat \<times> pyfloat \<times> pyfloat \<times> pyfloat \<times> pyfloat
     \<times> pyfloat \<times> pyfloat"

definition read_report :: "(string \<Rightarrow> pyfloat option) \<Rightarrow> report \<Rightarrow> inputs" where
  "read_report parse report =
     (let stext = lower (str_or (symptoms report) '''');
          pH = get_float parse (pH report) (Fin 7.0);
          turb = get_float parse (turbidity report) (Fin 0.0);
          ecoli = get_float parse (bacteria_count report) (Fin 0.0);
          coliforms = get_float parse (coliforms report) (Fin 0.0);
          hpc = get_float parse (hpc report) (Fin 0.0);
          arsenic = get_float parse (arsenic report) (Fin 0.0);
          fluoride = get_float parse (fluoride report) (Fin 0.0);
          nitrate = get_float parse (nitrate report) (Fin 0.0);
          lead = get_float parse (lead report) (Fin 0.0)
      in (stext, pH, turb, ecoli, coliforms, hpc, arsenic, fluoride, nitrate, lead))"

text \<open>Lines 54 to 124: the rules, run on these local variables.\<close>

definition run_rules :: "inputs \<Rightarrow> vars" where
  "run_rules =
     (\<lambda>(stext, pH, turb, ecoli, coliforms, hpc, arsenic, fluoride, nitrate, lead).
      let v = \<lparr>vars.score = 0, issues = [], diseases = []\<rparr>;
          v = rule (str_in ''fever'' stext) 2 [] [] v;
          v = rule (str_in ''diarrhea'' stext) 3 [] [] v;
          v = rule (str_in ''vomit'' stext \<or> str_in ''vomiting'' stext \<or> str_in ''nausea'' stext)
                2 [] [] v;
          v = rule (str_in ''jaundice'' stext) 2 [] [] v;
          v = rule (str_in ''abdominal pain'' stext \<or> str_in ''stomach pain'' stext) 1 [] [] v;
          v = rule (flt pH SAFE_pH_min \<or> fgt pH SAFE_pH_max) 2 [''Unsafe pH'']
                [''Metal leaching / gastritis / skin irritation''] v;
          v = turbidity_rule turb v;
          v = rule (fgt ecoli (Fin 0)) 5 [''E. coli present'']
                [''Diarrhea'', ''Cholera'', ''Typhoid''] v;
          v = rule (fgt coliforms (Fin 0)) 3 [''Fecal contamination (coliforms)'']
                [''Gastroenteritis'', ''Hepatitis A''] v;
          v = rule (fgt hpc SAFE_hpc_max) 2 [''High HPC''] [''Opportunistic infections''] v;
          v = rule (fgt arsenic SAFE_arsenic_max) 4 [''Arsenic above safe limit'']
                [''Arsenicosis / cancer risk''] v;
          v = rule (fgt fluoride SAFE_fluoride_max) 2 [''High fluoride'']
                [''Dental/Skeletal fluorosis''] v;
          v = rule (fgt nitrate SAFE_nitrate_max) 3 [''High nitrate'']
                [''Methemoglobinemia (Blue Baby)''] v;
          v = rule (fgt lead SAFE_lead_max) 4 [''Lead above safe limit'']
                [''Neurotoxicity / developmental issues''] v;
          v = couple_diarrhea (str_in ''diarrhea'' stext \<and>
                (fgt ecoli (Fin 0) \<or> fgt coliforms (Fin 0) \<or> fgt turb SAFE_turbidity_max)) v;
          v = couple_jaundice (str_in ''jaundice'' stext \<and>
                (fgt coliforms (Fin 0) \<or> fgt ecoli (Fin 0))) v
      in v)"

definition score_and_infer :: "(string \<Rightarrow> pyfloat option) \<Rightarrow> report \<Rightarrow> result" where
  "score_and_infer parse report =
     (let loc = str_or (report.location report) ''Unknown'';
          v = run_rules (read_report parse report);
          risk = risk_bucket (vars.score v);
          diseases_unique = dedup_loop (diseases v) {} []
      in \<lparr>location = loc, score = vars.score v, risk_level = risk,
          issues_found = issues v, likely_diseases = diseases_unique\<rparr>)"

section \<open>The rule table\<close>

text \<open>
  The sixteen \<^verbatim>\<open>if\<close> and \<^verbatim>\<open>elif\<close> statements of lines 58 to 116, in source order:
  the condition each one tests, whether its block runs (an \<^verbatim>\<open>elif\<close> block runs when its
  test holds and no earlier test of the chain did), the points its block adds, and, for
  the eleven water checks, the issue its block appends.
\<close>

definition tests :: "inputs \<Rightarrow> bool list" where
  "tests =
     (\<lambda>(stext, pH, turb, ecoli, coliforms, hpc, arsenic, fluoride, nitrate, lead).
      [str_in ''fever'' stext,
       str_in ''diarrhea'' stext,
       str_in ''vomit'' stext \<or> str_in ''vomiting'' stext \<or> str_in ''nausea'' stext,
       str_in ''jaundice'' stext,
       str_in ''abdominal pain'' stext \<or> str_in ''stomach pain'' stext,
       flt pH SAFE_pH_min \<or> fgt pH SAFE_pH_max,
       fgt turb (Fin 30),
       fgt turb SAFE_turbidity_max,
       fgt turb SAFE_turbidity_ideal,
       fgt ecoli (Fin 0),
       fgt coliforms (Fin 0),
       fgt hpc SAFE_hpc_max,
       fgt arsenic SAFE_arsenic_max,
       fgt fluoride SAFE_fluoride_max,
       fgt nitrate SAFE_nitrate_max,
       fgt lead SAFE_lead_max])"

definition fired :: "inputs \<Rightarrow> bool list" where
  "fired =
     (\<lambda>(stext, pH, turb, ecoli, coliforms, hpc, arsenic, fluoride, nitrate, lead).
      [str_in ''fever'' stext,
       str_in ''diarrhea'' stext,
       str_in ''vomit'' stext \<or> str_in ''vomiting'' stext \<or> str_in ''nausea'' stext,
       str_in ''jaundice'' stext,
       str_in ''abdominal pain'' stext \<or> str_in ''stomach pain'' stext,
       flt pH SAFE_pH_min \<or> fgt pH SAFE_pH_max,
       fgt turb (Fin 30),
       \<not> fgt turb (Fin 30) \<and> fgt turb SAFE_turbidity_max,
       \<not> fgt turb (Fin 30) \<and> \<not> fgt turb SAFE_turbidity_max \<and> fgt turb SAFE_turbidity_ideal,
       fgt ecoli (Fin 0),
       fgt coliforms (Fin 0),
       fgt hpc SAFE_hpc_max,
       fgt arsenic SAFE_arsenic_max,
       fgt fluoride SAFE_fluoride_max,
       fgt nitrate SAFE_nitrate_max,
       fgt lead SAFE_lead_max])"

definition points :: "int list" where
  "points = [2, 3, 2, 2, 1, 2, 4, 2, 0, 5, 3, 2, 4, 2, 3, 4]"

definition issue_names :: "string list" where
  "issue_names =
     [''Unsafe pH'', ''Very high turbidity'', ''High turbidity'', ''Turbidity above ideal'',
      ''E. coli present'', ''Fecal contamination (coliforms)'', ''High HPC'',
      ''Arsenic above safe limit'', ''High fluoride'', ''High nitrate'',
      ''Lead above safe limit'']"

text \<open>The points of the blocks that run, added up.\<close>

fun earned :: "bool list \<Rightarrow> int list \<Rightarrow> int" where
  "earned (c # cs) (p # ps) = (if c then p else 0) + earned cs ps"
| "earned cs ps = 0"

text \<open>The issues of the blocks that run, in order.\<close>

fun emitted :: "bool list \<Rightarrow> 'a list \<Rightarrow> 'a list" where
  "emitted (c # cs) (l # ls) = (if c then [l] else []) @ emitted cs ls"
| "emitted cs ls = []"

text \<open>The position of the first occurrence of \<open>x\<close> in a list.\<close>

fun first_index :: "'a list \<Rightarrow> 'a \<Rightarrow> nat" where
  "first_index [] x = 0"
| "first_index (y # ys) x = (if x = y then 0 else Suc (first_index ys x))"

section \<open>The location aggregator\<close>

text \<open>
  A \<^verbatim>\<open>collections.Counter\<close>: a dictionary from keys to counts that keeps its keys in
  the order they were first added, so an association list. \<^verbatim>\<open>c[k] += 1\<close> bumps the
  count of \<open>k\<close> where it stands, or adds \<open>k\<close> at the end with count 1; \<^verbatim>\<open>c[k]\<close> is 0
  for a key that is not there.
\<close>

type_synonym counter = "(string \<times> nat) list"

fun counter_add :: "string \<Rightarrow> counter \<Rightarrow> counter" where
  "counter_add k [] = [(k, 1)]"
| "counter_add k ((k', n) # c) =
     (if k' = k then (k', n + 1) # c else (k', n) # counter_add k c)"

definition counter_get :: "counter \<Rightarrow> string \<Rightarrow> nat" where
  "counter_get c k = (case map_of c k of None \<Rightarrow> 0 | Some n \<Rightarrow> n)"

text \<open>\<^verbatim>\<open>for k in ks: c[k] += 1\<close>\<close>

definition add_all :: "string list \<Rightarrow> counter \<Rightarrow> counter" where
  "add_all ks c = foldl (\<lambda>c k. counter_add k c) c ks"

text \<open>\<^verbatim>\<open>Counter(ks)\<close>\<close>

definition Counter :: "string list \<Rightarrow> counter" where
  "Counter ks = add_all ks []"

text \<open>
  \<^verbatim>\<open>c.most_common(n)\<close> is \<^verbatim>\<open>heapq.nlargest(n, c.items(), key=itemgetter(1))\<close>, which
  is \<^verbatim>\<open>sorted(c.items(), key=itemgetter(1), reverse=True)[:n]\<close>: a stable sort by
  falling count, cut after \<open>n\<close> items.
\<close>

definition most_common :: "nat \<Rightarrow> counter \<Rightarrow> (string \<times> nat) list" where
  "most_common n c = take n (sort_key (\<lambda>(k, cnt). - int cnt) c)"

text \<open>
  The four \<^verbatim>\<open>defaultdict(Counter)\<close> and the list \<^verbatim>\<open>per_report\<close>. A
  \<^verbatim>\<open>defaultdict(Counter)\<close> is a function that is the empty counter wherever nothing
  was counted. An entry \<^verbatim>\<open>{**r, **result}\<close> of \<^verbatim>\<open>per_report\<close> is the report with
  its result; the keys of the result win.
\<close>

record aggregates =
  loc_symptoms :: "string \<Rightarrow> counter"
  loc_diseases :: "string \<Rightarrow> counter"
  loc_risk :: "string \<Rightarrow> counter"
  loc_issues :: "string \<Rightarrow> counter"
  per_report :: "(report \<times> result) list"

text \<open>The body of the loop over the reports (lines 158 to 174).\<close>

definition aggregate_report ::
  "(string \<Rightarrow> pyfloat option) \<Rightarrow> aggregates \<Rightarrow> report \<Rightarrow> aggregates" where
  "aggregate_report parse a r =
     (let stext = lower (str_or (symptoms r) '''');
          loc = str_or (report.location r) ''Unknown'';
          a = a\<lparr>loc_symptoms := (loc_symptoms a)
                (loc := add_all (filter (\<lambda>key. str_in key stext) SYMPTOM_KEYS)
                          (loc_symptoms a loc))\<rparr>;
          result = score_and_infer parse r;
          a = a\<lparr>per_report := per_report a @ [(r, result)]\<rparr>;
          a = a\<lparr>loc_diseases := (loc_diseases a)
                (loc := add_all (likely_diseases result) (loc_diseases a loc))\<rparr>;
          a = a\<lparr>loc_risk := (loc_risk a)
                (loc := counter_add (risk_level result) (loc_risk a loc))\<rparr>;
          a = a\<lparr>loc_issues := (loc_issues a)
                (loc := add_all (issues_found result) (loc_issues a loc))\<rparr>
      in a)"

record location_summary =
  symptom_trends :: counter
  risk_counts :: counter
  top_issues :: "string list"
  likely_diseases_top :: "string list"

text \<open>
  \<^verbatim>\<open>location_summary\<close> is a dictionary with one entry for each location of
  \<^verbatim>\<open>per_report\<close>, or for "Unknown" alone when there is no report: a map.
\<close>

definition aggregate_location_patterns ::
  "(string \<Rightarrow> pyfloat option) \<Rightarrow> report list
     \<Rightarrow> (report \<times> result) list \<times> (string \<rightharpoonup> location_summary)" where
  "aggregate_location_patterns parse reports =
     (let a = foldl (aggregate_report parse)
                \<lparr>loc_symptoms = (\<lambda>loc. []), loc_diseases = (\<lambda>loc. []), loc_risk = (\<lambda>loc. []),
                 loc_issues = (\<lambda>loc. []), per_report = []\<rparr> reports;
          locs = (if per_report a = [] then [''Unknown'']
                  else map (\<lambda>pr. result.location (snd pr)) (per_report a))
      in (per_report a,
          (\<lambda>loc. if loc \<in> set locs then
                    Some \<lparr>symptom_trends = loc_symptoms a loc,
                          risk_counts = loc_risk a loc,
                          top_issues = map fst (most_common 5 (loc_issues a loc)),
                          likely_diseases_top = map fst (most_common 5 (loc_diseases a loc))\<rparr>
                  else None)))"

text \<open>
  The verdict over all reports. \<^verbatim>\<open>counts["High"] / total\<close> is the double nearest to
  the quotient, and \<^verbatim>\<open>0.33\<close> is the double \<open>5944751508129055 / 2 ^ 54\<close>, just above
  33/100; the quotient of two counts rounds to that double or above exactly when the
  quotient itself is at least 33/100, as long as there are fewer than \<open>8 * 10 ^ 14\<close>
  reports (lemma \<open>true_division_threshold\<close>). So the test is taken on the quotient itself.
\<close>

definition overall_risk_from_reports :: "(report \<times> result) list \<Rightarrow> string" where
  "overall_risk_from_reports =
     (\<lambda>per_report.
      if per_report = [] then ''No Data''
      else
        let counts = Counter (map (\<lambda>r. risk_level (snd r)) per_report);
            total = length per_report
        in if real (counter_get counts ''High'') / real total \<ge> 0.33 then ''High''
           else if real (counter_get counts ''Medium'') / real total \<ge> 0.33 then ''Medium''
           else ''Low'')"

section \<open>Ranking by frequency\<close>

text \<open>
  In a stream of values, \<open>a\<close> ranks before \<open>b\<close> when it occurs more often, or as often and
  first occurs earlier. The top \<open>n\<close> of a stream are at most \<open>n\<close> different values of it,
  in ranking order, such that a value left out only when \<open>n\<close> were taken, all ranking
  before it.
\<close>

definition ranks_before :: "'a list \<Rightarrow> 'a \<Rightarrow> 'a \<Rightarrow> bool" where
  "ranks_before xs a b =
     (count_list xs a > count_list xs b \<or>
      (count_list xs a = count_list xs b \<and> first_index xs a < first_index xs b))"

definition top_by_frequency :: "nat \<Rightarrow> 'a list \<Rightarrow> 'a list \<Rightarrow> bool" where
  "top_by_frequency n xs best =
     (length best \<le> n \<and> distinct best \<and> set best \<subseteq> set xs \<and>
      sorted_wrt (ranks_before xs) best \<and>
      (\<forall>x \<in> set xs - set best. length best = n \<and> (\<forall>y \<in> set best. ranks_before xs y x)))"

text \<open>The issues, and the diseases, of the reports of one location, in report order.\<close>

definition issues_at :: "(string \<Rightarrow> pyfloat option) \<Rightarrow> string \<Rightarrow> report list \<Rightarrow> string list" where
  "issues_at parse loc reports =
     concat (map (\<lambda>r. issues_found (score_and_infer parse r))
       (filter (\<lambda>r. str_or (report.location r) ''Unknown'' = loc) reports))"

definition diseases_at :: "(string \<Rightarrow> pyfloat option) \<Rightarrow> string \<Rightarrow> report list \<Rightarrow> string list" where
  "diseases_at parse loc reports =
     concat (map (\<lambda>r. likely_diseases (score_and_infer parse r))
       (filter (\<lambda>r. str_or (report.location r) ''Unknown'' = loc) reports))"

section \<open>Example inputs\<close>

text \<open>A report with every key missing, and a string parser that rejects every string.\<close>

definition empty_report :: report where
  "empty_report = \<lparr>report.location = None, symptoms = None, pH = PNone, turbidity = PNone,
     bacteria_count = PNone, coliforms = PNone, hpc = PNone, arsenic = PNone, fluoride = PNone,
     nitrate = PNone, lead = PNone\<rparr>"

definition no_parse :: "string \<Rightarrow> pyfloat option" where
  "no_parse s = None"

text \<open>
  Three reports, of High, Medium and Low risk, and the entry of \<^verbatim>\<open>per_report\<close> a
  report gives.
\<close>

definition high_report :: report where
  "high_report = empty_report\<lparr>symptoms := Some ''diarrhea'', coliforms := PInt 1\<rparr>"

definition medium_report :: report where
  "medium_report = empty_report\<lparr>symptoms := Some ''diarrhea''\<rparr>"

definition scored :: "report \<Rightarrow> report \<times> result" where
  "scored r = (r, score_and_infer no_parse r)"

text \<open>
  Two reports from location A: one with a high HPC and lead, one with every water reading
  out of bounds.
\<close>

definition hpc_lead_report :: report where
  "hpc_lead_report = empty_report\<lparr>report.location := Some ''A'', hpc := PInt 600, lead := PInt 1\<rparr>"

definition foul_report :: report where
  "foul_report = empty_report\<lparr>report.location := Some ''A'', pH := PInt 9, turbidity := PInt 40,
     bacteria_count := PInt 1, coliforms := PInt 1, hpc := PInt 600, arsenic := PInt 1,
     fluoride := PInt 2, nitrate := PInt 50, lead := PInt 1\<rparr>"

text \<open>
  A report of diarrhea whose bacteria count is an integer too large for a float:
  \<^verbatim>\<open>float\<close> raises OverflowError on it, and \<^verbatim>\<open>_get_float\<close> returns the default.
\<close>

definition overflow_report :: report where
  "overflow_report = empty_report\<lparr>symptoms := Some ''diarrhea'', bacteria_count := PInt (2 ^ 1024)\<rparr>"

section \<open>Facts about the scorer\<close>

lemma fle_not_fgt: "fle a b \<Longrightarrow> \<not> fgt a b"
  by (cases a; cases b) (simp_all add: fgt_def)

lemma fle_not_flt: "fle a b \<Longrightarrow> \<not> flt b a"
  by (cases a; cases b) simp_all

lemma fle_Fin_not_fgt: "fle a (Fin x) \<Longrightarrow> x \<le> y \<Longrightarrow> \<not> fgt a (Fin y)"
  by (cases a) (simp_all add: fgt_def)

lemma get_float_PNone [simp]: "get_float parse PNone d = d"
  by (simp add: get_float_def)

lemma get_float_PFloat [simp]: "get_float parse (PFloat f) d = f"
  by (simp add: get_float_def)

lemma get_float_PInt: "\<bar>n\<bar> \<le> 2 ^ 53 \<Longrightarrow> get_float parse (PInt n) d = Fin (real_of_int n)"
  by (simp add: get_float_def float_of_int_def)

lemma rule_score [simp]: "vars.score (rule c pts is ds v) = vars.score v + (if c then pts else 0)"
  by (simp add: rule_def)

lemma rule_issues [simp]: "issues (rule c pts is ds v) = issues v @ (if c then is else [])"
  by (simp add: rule_def)

lemma rule_diseases [simp]: "diseases (rule c pts is ds v) = diseases v @ (if c then ds else [])"
  by (simp add: rule_def)

lemma rule_False [simp]: "rule False pts is ds v = v"
  by (simp add: rule_def)

lemma couple_diarrhea_score [simp]: "vars.score (couple_diarrhea c v) = vars.score v"
  by (simp add: couple_diarrhea_def)

lemma couple_diarrhea_issues [simp]: "issues (couple_diarrhea c v) = issues v"
  by (simp add: couple_diarrhea_def)

lemma couple_diarrhea_False [simp]: "couple_diarrhea False v = v"
  by (simp add: couple_diarrhea_def)

lemma couple_jaundice_score [simp]: "vars.score (couple_jaundice c v) = vars.score v"
  by (simp add: couple_jaundice_def)

lemma couple_jaundice_issues [simp]: "issues (couple_jaundice c v) = issues v"
  by (simp add: couple_jaundice_def)

lemma couple_jaundice_False [simp]: "couple_jaundice False v = v"
  by (simp add: couple_jaundice_def)

lemma turbidity_rule_quiet: "\<not> fgt turb SAFE_turbidity_ideal \<Longrightarrow> turbidity_rule turb v = v"
  by (cases turb) (auto simp: turbidity_rule_def fgt_def SAFE_turbidity_ideal_def
      SAFE_turbidity_max_def)

lemma run_rules_quiet:
  assumes "\<not> str_in ''fever'' stext" "\<not> str_in ''diarrhea'' stext" "\<not> str_in ''vomit'' stext"
    "\<not> str_in ''vomiting'' stext" "\<not> str_in ''nausea'' stext" "\<not> str_in ''jaundice'' stext"
    "\<not> str_in ''abdominal pain'' stext" "\<not> str_in ''stomach pain'' stext"
    "\<not> flt ph SAFE_pH_min" "\<not> fgt ph SAFE_pH_max" "\<not> fgt turb SAFE_turbidity_ideal"
    "\<not> fgt ecoli (Fin 0)" "\<not> fgt coli (Fin 0)" "\<not> fgt hp SAFE_hpc_max"
    "\<not> fgt ars SAFE_arsenic_max" "\<not> fgt fl SAFE_fluoride_max" "\<not> fgt nit SAFE_nitrate_max"
    "\<not> fgt pb SAFE_lead_max"
  shows "run_rules (stext, ph, turb, ecoli, coli, hp, ars, fl, nit, pb) =
           \<lparr>vars.score = 0, issues = [], diseases = []\<rparr>"
  using assms by (simp add: run_rules_def turbidity_rule_quiet)

lemma score_and_infer_fields:
  "score (score_and_infer parse r) = vars.score (run_rules (read_report parse r))"
  "risk_level (score_and_infer parse r) = risk_bucket (vars.score (run_rules (read_report parse r)))"
  "issues_found (score_and_infer parse r) = issues (run_rules (read_report parse r))"
  "likely_diseases (score_and_infer parse r) =
     dedup_loop (diseases (run_rules (read_report parse r))) {} []"
  by (simp_all add: score_and_infer_def Let_def)

text \<open>
  C1. A report with no symptom text, each of whose measurements is missing or within its
  safe bound (pH in [6.5, 8.5], turbidity at most 1.0, no E. coli, no coliforms, HPC at most
  500, arsenic at most 0.01, fluoride at most 1.5, nitrate at most 45.0, lead at most 0.01),
  gets score 0, risk level Low, no issue and no disease.
\<close>

theorem safe_report_is_quiet:
  assumes "symptoms r = None \<or> symptoms r = Some ''''"
    and "pH r = PNone \<or> (fle SAFE_pH_min (get_float parse (pH r) (Fin 7)) \<and>
                            fle (get_float parse (pH r) (Fin 7)) SAFE_pH_max)"
    and "turbidity r = PNone \<or> fle (get_float parse (turbidity r) (Fin 0)) (Fin 1)"
    and "bacteria_count r = PNone \<or> get_float parse (bacteria_count r) (Fin 0) = Fin 0"
    and "coliforms r = PNone \<or> get_float parse (coliforms r) (Fin 0) = Fin 0"
    and "hpc r = PNone \<or> fle (get_float parse (hpc r) (Fin 0)) SAFE_hpc_max"
    and "arsenic r = PNone \<or> fle (get_float parse (arsenic r) (Fin 0)) SAFE_arsenic_max"
    and "fluoride r = PNone \<or> fle (get_float parse (fluoride r) (Fin 0)) SAFE_fluoride_max"
    and "nitrate r = PNone \<or> fle (get_float parse (nitrate r) (Fin 0)) SAFE_nitrate_max"
    and "lead r = PNone \<or> fle (get_float parse (lead r) (Fin 0)) SAFE_lead_max"
  shows "score (score_and_infer parse r) = 0 \<and>
         risk_level (score_and_infer parse r) = ''Low'' \<and>
         issues_found (score_and_infer parse r) = [] \<and>
         likely_diseases (score_and_infer parse r) = []"
proof -
  have stext: "lower (str_or (symptoms r) '''') = ''''"
    using assms(1) by (auto simp: lower_def str_or_def)
  have ph: "\<not> flt (get_float parse (pH r) (Fin 7)) SAFE_pH_min"
           "\<not> fgt (get_float parse (pH r) (Fin 7)) SAFE_pH_max"
    using assms(2) by (auto simp: SAFE_pH_min_def SAFE_pH_max_def fgt_def dest: fle_not_flt)
  have turb: "\<not> fgt (get_float parse (turbidity r) (Fin 0)) SAFE_turbidity_ideal"
    using assms(3) by (auto simp: SAFE_turbidity_ideal_def fgt_def dest: fle_not_flt)
  have ecoli: "\<not> fgt (get_float parse (bacteria_count r) (Fin 0)) (Fin 0)"
    using assms(4) by (auto simp: fgt_def)
  have coli: "\<not> fgt (get_float parse (coliforms r) (Fin 0)) (Fin 0)"
    using assms(5) by (auto simp: fgt_def)
  have hp: "\<not> fgt (get_float parse (hpc r) (Fin 0)) SAFE_hpc_max"
    using assms(6) by (auto simp: SAFE_hpc_max_def fgt_def dest: fle_not_flt)
  have ars: "\<not> fgt (get_float parse (arsenic r) (Fin 0)) SAFE_arsenic_max"
    using assms(7) by (auto simp: SAFE_arsenic_max_def fgt_def dest: fle_not_flt)
  have fl: "\<not> fgt (get_float parse (fluoride r) (Fin 0)) SAFE_fluoride_max"
    using assms(8) by (auto simp: SAFE_fluoride_max_def fgt_def dest: fle_not_flt)
  have nit: "\<not> fgt (get_float parse (nitrate r) (Fin 0)) SAFE_nitrate_max"
    using assms(9) by (auto simp: SAFE_nitrate_max_def fgt_def dest: fle_not_flt)
  have pb: "\<not> fgt (get_float parse (lead r) (Fin 0)) SAFE_lead_max"
    using assms(10) by (auto simp: SAFE_lead_max_def fgt_def dest: fle_not_flt)
  have "run_rules (read_report parse r) = \<lparr>vars.score = 0, issues = [], diseases = []\<rparr>"
    unfolding read_report_def Let_def stext
    by (rule run_rules_quiet) (simp_all add: ph turb ecoli coli hp ars fl nit pb)
  then show ?thesis
    by (simp add: score_and_infer_fields risk_bucket_def)
qed

theorem safe_report_is_quiet_witness:
  "score (score_and_infer no_parse (empty_report\<lparr>symptoms := Some '''', pH := PFloat (Fin 8.5),
      turbidity := PInt 1, arsenic := PFloat SAFE_arsenic_max\<rparr>)) = 0 \<and>
   risk_level (score_and_infer no_parse (empty_report\<lparr>symptoms := Some '''', pH := PFloat (Fin 8.5),
      turbidity := PInt 1, arsenic := PFloat SAFE_arsenic_max\<rparr>)) = ''Low'' \<and>
   issues_found (score_and_infer no_parse (empty_report\<lparr>symptoms := Some '''', pH := PFloat (Fin 8.5),
      turbidity := PInt 1, arsenic := PFloat SAFE_arsenic_max\<rparr>)) = [] \<and>
   likely_diseases (score_and_infer no_parse (empty_report\<lparr>symptoms := Some '''', pH := PFloat (Fin 8.5),
      turbidity := PInt 1, arsenic := PFloat SAFE_arsenic_max\<rparr>)) = []"
  by (rule safe_report_is_quiet)
     (simp_all add: empty_report_def get_float_PInt SAFE_pH_min_def SAFE_pH_max_def
        SAFE_arsenic_max_def)

lemma turbidity_rule_score:
  "vars.score (turbidity_rule turb v) =
     vars.score v + (if fgt turb (Fin 30) then 4 else if fgt turb SAFE_turbidity_max then 2 else 0)"
  by (simp add: turbidity_rule_def)

lemma turbidity_rule_issues:
  "issues (turbidity_rule turb v) =
     issues v @ (if fgt turb (Fin 30) then [''Very high turbidity'']
                 else if fgt turb SAFE_turbidity_max then [''High turbidity'']
                 else if fgt turb SAFE_turbidity_ideal then [''Turbidity above ideal'']
                 else [])"
  by (simp add: turbidity_rule_def)

lemma turbidity_rule_diseases:
  "diseases (turbidity_rule turb v) =
     diseases v @ (if fgt turb (Fin 30) then [''Pathogens likely; chlorination failure'']
                   else if fgt turb SAFE_turbidity_max
                     then [''Pathogens may survive; diarrhea risk'']
                   else [])"
  by (simp add: turbidity_rule_def)

lemma inputs_cases [case_names fields]:
  fixes x :: inputs
  obtains stext ph turb ecoli coli hp ars fl nit pb
  where "x = (stext, ph, turb, ecoli, coli, hp, ars, fl, nit, pb)"
  by (metis surj_pair)

text \<open>
  In the next three proofs only the turbidity tests are split; every other test stays a
  term.
\<close>

lemma run_rules_score:
  "vars.score (run_rules x) = earned (fired x) points"
proof (cases x rule: inputs_cases)
  case (fields stext ph turb ecoli coli hp ars fl nit pb)
  show ?thesis
    by (cases "fgt turb (Fin 30)"; cases "fgt turb SAFE_turbidity_max")
       (simp_all add: fields run_rules_def fired_def points_def turbidity_rule_score Let_def
          del: if_split cong: if_cong)
qed

lemma earned_tests:
  "earned (fired x) points = earned (tests x) [2, 3, 2, 2, 1, 2, 2, 2, 0, 5, 3, 2, 4, 2, 3, 4]"
proof (cases x rule: inputs_cases)
  case (fields stext ph turb ecoli coli hp ars fl nit pb)
  have *: "fgt turb (Fin 30) \<Longrightarrow> fgt turb SAFE_turbidity_max"
    by (cases turb) (simp_all add: fgt_def SAFE_turbidity_max_def)
  show ?thesis
  proof (cases "fgt turb (Fin 30)")
    case True
    with * [OF True] show ?thesis
      by (simp add: fields fired_def tests_def points_def del: if_split cong: if_cong)
  next
    case False
    then show ?thesis
      by (cases "fgt turb SAFE_turbidity_max")
         (simp_all add: fields fired_def tests_def points_def del: if_split cong: if_cong)
  qed
qed

lemma earned_mono:
  "list_all2 (\<longrightarrow>) cs cs' \<Longrightarrow> \<forall>p \<in> set ps. 0 \<le> p \<Longrightarrow> earned cs ps \<le> earned cs' ps"
proof (induction cs cs' arbitrary: ps rule: list_all2_induct)
  case Nil
  then show ?case by simp
next
  case (Cons c cs c' cs')
  show ?case
  proof (cases ps)
    case Nil
    then show ?thesis by simp
  next
    case (Cons p ps')
    with Cons.prems have "0 \<le> p" "earned cs ps' \<le> earned cs' ps'"
      by (simp_all add: Cons.IH)
    with Cons.hyps(1) show ?thesis
      by (simp add: Cons)
  qed
qed

lemma run_rules_issues:
  "issues (run_rules x) = emitted (drop 5 (fired x)) issue_names"
proof (cases x rule: inputs_cases)
  case (fields stext ph turb ecoli coli hp ars fl nit pb)
  show ?thesis
    by (cases "fgt turb (Fin 30)"; cases "fgt turb SAFE_turbidity_max";
        cases "fgt turb SAFE_turbidity_ideal")
       (simp_all add: fields run_rules_def fired_def issue_names_def turbidity_rule_issues
          Let_def del: if_split cong: if_cong)
qed

lemma set_emitted: "set (emitted cs ls) \<subseteq> set ls"
  by (induction cs ls rule: emitted.induct) auto

lemma distinct_emitted: "distinct ls \<Longrightarrow> distinct (emitted cs ls)"
proof (induction cs ls rule: emitted.induct)
  case (1 c cs l ls)
  then show ?case
    using set_emitted [of cs ls] by auto
qed simp_all

lemma distinct_issue_names: "distinct issue_names"
  by (simp add: issue_names_def)

lemma points_nonneg: "\<forall>p \<in> set points. 0 \<le> p"
  by (simp add: points_def)

text \<open>Reading the example reports.\<close>

lemma lower_lower_case:
  "lower ''fever'' = ''fever''"
  "lower ''diarrhea'' = ''diarrhea''"
  "lower ''fever and diarrhea'' = ''fever and diarrhea''"
  "lower ''severe diarrhea and fever'' = ''severe diarrhea and fever''"
  by code_simp+

lemma read_empty_report:
  "read_report parse (empty_report\<lparr>symptoms := Some s\<rparr>) =
     (lower s, Fin 7, Fin 0, Fin 0, Fin 0, Fin 0, Fin 0, Fin 0, Fin 0, Fin 0)"
  by (simp add: read_report_def empty_report_def str_or_def)

text \<open>
  C2. The risk level is a function of the score alone: High from 6 on, Medium from 3 to 5,
  Low below 3.
\<close>

theorem risk_level_from_score:
  "(6 \<le> score (score_and_infer parse r) \<longrightarrow> risk_level (score_and_infer parse r) = ''High'') \<and>
   (3 \<le> score (score_and_infer parse r) \<and> score (score_and_infer parse r) < 6 \<longrightarrow>
      risk_level (score_and_infer parse r) = ''Medium'') \<and>
   (score (score_and_infer parse r) < 3 \<longrightarrow> risk_level (score_and_infer parse r) = ''Low'')"
  by (simp add: score_and_infer_fields risk_bucket_def)

text \<open>The boundary scores 2, 3, 5 and 6, each reached by a report.\<close>

theorem risk_level_from_score_witness:
  "score (score_and_infer no_parse (empty_report\<lparr>symptoms := Some ''fever''\<rparr>)) = 2 \<and>
   risk_level (score_and_infer no_parse (empty_report\<lparr>symptoms := Some ''fever''\<rparr>)) = ''Low'' \<and>
   score (score_and_infer no_parse (empty_report\<lparr>symptoms := Some ''diarrhea''\<rparr>)) = 3 \<and>
   risk_level (score_and_infer no_parse (empty_report\<lparr>symptoms := Some ''diarrhea''\<rparr>)) = ''Medium'' \<and>
   score (score_and_infer no_parse (empty_report\<lparr>symptoms := Some ''fever and diarrhea''\<rparr>)) = 5 \<and>
   risk_level (score_and_infer no_parse (empty_report\<lparr>symptoms := Some ''fever and diarrhea''\<rparr>))
     = ''Medium'' \<and>
   score (score_and_infer no_parse
     (empty_report\<lparr>symptoms := Some ''diarrhea'', coliforms := PInt 1\<rparr>)) = 6 \<and>
   risk_level (score_and_infer no_parse
     (empty_report\<lparr>symptoms := Some ''diarrhea'', coliforms := PInt 1\<rparr>)) = ''High''"
proof -
  have s2: "score (score_and_infer no_parse (empty_report\<lparr>symptoms := Some ''fever''\<rparr>)) = 2"
    by (simp add: score_and_infer_fields run_rules_score read_empty_report lower_lower_case
        fired_def points_def fgt_def SAFE_pH_min_def SAFE_pH_max_def SAFE_turbidity_max_def
        SAFE_turbidity_ideal_def SAFE_hpc_max_def SAFE_arsenic_max_def SAFE_fluoride_max_def
        SAFE_nitrate_max_def SAFE_lead_max_def)
  have s3: "score (score_and_infer no_parse (empty_report\<lparr>symptoms := Some ''diarrhea''\<rparr>)) = 3"
    by (simp add: score_and_infer_fields run_rules_score read_empty_report lower_lower_case
        fired_def points_def fgt_def SAFE_pH_min_def SAFE_pH_max_def SAFE_turbidity_max_def
        SAFE_turbidity_ideal_def SAFE_hpc_max_def SAFE_arsenic_max_def SAFE_fluoride_max_def
        SAFE_nitrate_max_def SAFE_lead_max_def)
  have s5: "score (score_and_infer no_parse
      (empty_report\<lparr>symptoms := Some ''fever and diarrhea''\<rparr>)) = 5"
    by (simp add: score_and_infer_fields run_rules_score read_empty_report lower_lower_case
        fired_def points_def fgt_def SAFE_pH_min_def SAFE_pH_max_def SAFE_turbidity_max_def
        SAFE_turbidity_ideal_def SAFE_hpc_max_def SAFE_arsenic_max_def SAFE_fluoride_max_def
        SAFE_nitrate_max_def SAFE_lead_max_def)
  have s6: "score (score_and_infer no_parse
      (empty_report\<lparr>symptoms := Some ''diarrhea'', coliforms := PInt 1\<rparr>)) = 6"
    by (simp add: score_and_infer_fields run_rules_score read_report_def empty_report_def
        str_or_def get_float_PInt lower_lower_case
        fired_def points_def fgt_def SAFE_pH_min_def SAFE_pH_max_def SAFE_turbidity_max_def
        SAFE_turbidity_ideal_def SAFE_hpc_max_def SAFE_arsenic_max_def SAFE_fluoride_max_def
        SAFE_nitrate_max_def SAFE_lead_max_def)
  show ?thesis
    using risk_level_from_score [of no_parse "empty_report\<lparr>symptoms := Some ''fever''\<rparr>"]
      risk_level_from_score [of no_parse "empty_report\<lparr>symptoms := Some ''diarrhea''\<rparr>"]
      risk_level_from_score [of no_parse "empty_report\<lparr>symptoms := Some ''fever and diarrhea''\<rparr>"]
      risk_level_from_score [of no_parse
        "empty_report\<lparr>symptoms := Some ''diarrhea'', coliforms := PInt 1\<rparr>"]
    by (simp add: s2 s3 s5 s6)
qed

lemmas SAFE_defs = SAFE_pH_min_def SAFE_pH_max_def SAFE_turbidity_ideal_def
  SAFE_turbidity_max_def SAFE_hpc_max_def SAFE_arsenic_max_def SAFE_fluoride_max_def
  SAFE_nitrate_max_def SAFE_lead_max_def

text \<open>
  C10. \<open>issues_found\<close> never holds the same string twice: it is a selection, in order,
  from eleven different literals.
\<close>

theorem issues_found_distinct:
  "distinct (issues_found (score_and_infer parse r))"
  by (simp add: score_and_infer_fields run_rules_issues distinct_emitted distinct_issue_names)

text \<open>
  C7. The score is the sum of the points of the blocks that run, and it does not go down
  when more conditions hold: if every block that runs on \<open>r\<close> runs on \<open>r'\<close>, or every
  test that holds on \<open>r\<close> holds on \<open>r'\<close>, the score of \<open>r'\<close> is at least that of \<open>r\<close>.
\<close>

theorem score_monotone:
  assumes "list_all2 (\<longrightarrow>) (fired (read_report parse r)) (fired (read_report parse r')) \<or>
           list_all2 (\<longrightarrow>) (tests (read_report parse r)) (tests (read_report parse r'))"
  shows "score (score_and_infer parse r) = earned (fired (read_report parse r)) points \<and>
         score (score_and_infer parse r) \<le> score (score_and_infer parse r')"
proof -
  have "earned (fired (read_report parse r)) points
          \<le> earned (fired (read_report parse r')) points"
    using assms
  proof
    assume "list_all2 (\<longrightarrow>) (fired (read_report parse r)) (fired (read_report parse r'))"
    then show ?thesis
      by (rule earned_mono) (rule points_nonneg)
  next
    assume "list_all2 (\<longrightarrow>) (tests (read_report parse r)) (tests (read_report parse r'))"
    then have "earned (tests (read_report parse r)) [2, 3, 2, 2, 1, 2, 2, 2, 0, 5, 3, 2, 4, 2, 3, 4]
                 \<le> earned (tests (read_report parse r')) [2, 3, 2, 2, 1, 2, 2, 2, 0, 5, 3, 2, 4, 2, 3, 4]"
      by (rule earned_mono) simp
    then show ?thesis
      by (simp add: earned_tests)
  qed
  then show ?thesis
    by (simp add: score_and_infer_fields run_rules_score)
qed

text \<open>
  Turbidity 10 against turbidity 40 with one more symptom: the tests that hold grow, the
  score goes from 4 to 9.
\<close>

theorem score_monotone_witness:
  "score (score_and_infer no_parse (empty_report\<lparr>symptoms := Some ''fever'', turbidity := PInt 10\<rparr>))
     = 4 \<and>
   score (score_and_infer no_parse
     (empty_report\<lparr>symptoms := Some ''fever and diarrhea'', turbidity := PInt 40\<rparr>)) = 9 \<and>
   score (score_and_infer no_parse (empty_report\<lparr>symptoms := Some ''fever'', turbidity := PInt 10\<rparr>))
     \<le> score (score_and_infer no_parse
          (empty_report\<lparr>symptoms := Some ''fever and diarrhea'', turbidity := PInt 40\<rparr>))"
proof -
  have r: "read_report no_parse (empty_report\<lparr>symptoms := Some ''fever'', turbidity := PInt 10\<rparr>)
             = (''fever'', Fin 7, Fin 10, Fin 0, Fin 0, Fin 0, Fin 0, Fin 0, Fin 0, Fin 0)"
    by (simp add: read_report_def empty_report_def str_or_def get_float_PInt lower_lower_case)
  have r': "read_report no_parse
              (empty_report\<lparr>symptoms := Some ''fever and diarrhea'', turbidity := PInt 40\<rparr>)
             = (''fever and diarrhea'', Fin 7, Fin 40, Fin 0, Fin 0, Fin 0, Fin 0, Fin 0, Fin 0, Fin 0)"
    by (simp add: read_report_def empty_report_def str_or_def get_float_PInt lower_lower_case)
  have t: "list_all2 (\<longrightarrow>)
      (tests (read_report no_parse (empty_report\<lparr>symptoms := Some ''fever'', turbidity := PInt 10\<rparr>)))
      (tests (read_report no_parse
         (empty_report\<lparr>symptoms := Some ''fever and diarrhea'', turbidity := PInt 40\<rparr>)))"
    by (simp add: r r' tests_def fgt_def SAFE_defs)
  have e: "earned (fired (''fever'', Fin 7, Fin 10, Fin 0, Fin 0, Fin 0, Fin 0, Fin 0, Fin 0, Fin 0))
             points = 4"
    by (simp add: fired_def points_def fgt_def SAFE_defs)
  have e': "earned (fired (''fever and diarrhea'', Fin 7, Fin 40, Fin 0, Fin 0, Fin 0, Fin 0, Fin 0,
              Fin 0, Fin 0)) points = 9"
    by (simp add: fired_def points_def fgt_def SAFE_defs)
  show ?thesis
    using score_monotone [of no_parse "empty_report\<lparr>symptoms := Some ''fever'', turbidity := PInt 10\<rparr>"
        "empty_report\<lparr>symptoms := Some ''fever and diarrhea'', turbidity := PInt 40\<rparr>", OF disjI2, OF t]
    by (simp add: r r' e e' score_and_infer_fields run_rules_score)
qed

text \<open>The de-duplication loop.\<close>

lemma dedup_loop_append:
  "dedup_loop ds seen (acc @ acc') = acc @ dedup_loop ds seen acc'"
  by (induction ds arbitrary: seen acc') simp_all

lemma dedup_loop_Cons:
  "dedup_loop (d # ds) seen [] =
     (if d \<in> seen then dedup_loop ds seen [] else d # dedup_loop ds (insert d seen) [])"
  using dedup_loop_append [of ds "insert d seen" "[d]" "[]"] by simp

lemma set_dedup_loop: "set (dedup_loop ds seen []) = set ds - seen"
  by (induction ds arbitrary: seen) (auto simp: dedup_loop_Cons simp del: dedup_loop.simps(2))

lemma distinct_dedup_loop: "distinct (dedup_loop ds seen [])"
  by (induction ds arbitrary: seen)
     (auto simp: dedup_loop_Cons set_dedup_loop simp del: dedup_loop.simps(2))

lemma first_occurrences_dedup_loop:
  "sorted_wrt (\<lambda>x y. first_index ds x < first_index ds y) (dedup_loop ds seen [])"
proof (induction ds arbitrary: seen)
  case Nil
  then show ?case by simp
next
  case (Cons d ds)
  have shift: "sorted_wrt (\<lambda>x y. first_index (d # ds) x < first_index (d # ds) y)
                 (dedup_loop ds seen' [])" if "d \<in> seen'" for seen'
  proof (rule sorted_wrt_mono_rel [OF _ Cons.IH [of seen']])
    fix x y
    assume "x \<in> set (dedup_loop ds seen' [])" "y \<in> set (dedup_loop ds seen' [])"
      and "first_index ds x < first_index ds y"
    with that show "first_index (d # ds) x < first_index (d # ds) y"
      by (auto simp: set_dedup_loop)
  qed
  show ?case
  proof (cases "d \<in> seen")
    case True
    with shift [of seen] show ?thesis
      by (simp add: dedup_loop_Cons del: dedup_loop.simps(2))
  next
    case False
    with shift [of "insert d seen"] show ?thesis
      by (auto simp: dedup_loop_Cons set_dedup_loop simp del: dedup_loop.simps(2))
  qed
qed

text \<open>
  C6. \<open>likely_diseases\<close> holds no string twice; it holds exactly the diseases the rules
  put in \<^verbatim>\<open>diseases\<close>, in the order of their first occurrences there.
\<close>

theorem likely_diseases_first_occurrences:
  "distinct (likely_diseases (score_and_infer parse r)) \<and>
   set (likely_diseases (score_and_infer parse r)) = set (diseases (run_rules (read_report parse r))) \<and>
   sorted_wrt (\<lambda>x y. first_index (diseases (run_rules (read_report parse r))) x
                     < first_index (diseases (run_rules (read_report parse r))) y)
     (likely_diseases (score_and_infer parse r))"
  by (simp add: score_and_infer_fields distinct_dedup_loop set_dedup_loop
      first_occurrences_dedup_loop)

text \<open>The coupling blocks.\<close>

lemma set_ensure [simp]: "set (ensure d ds) = insert d (set ds)"
  by (auto simp: ensure_def)

lemma ensure_extends:
  assumes "ds' = ds @ new" "distinct new" "set new \<inter> set ds = {}"
  shows "\<exists>new'. ensure d ds' = ds @ new' \<and> distinct new' \<and> set new' \<inter> set ds = {}"
proof (cases "d \<in> set ds'")
  case True
  with assms show ?thesis
    by (simp add: ensure_def)
next
  case False
  with assms have "ensure d ds' = ds @ (new @ [d])" "distinct (new @ [d])"
    "set (new @ [d]) \<inter> set ds = {}"
    by (auto simp: ensure_def)
  then show ?thesis
    by blast
qed

lemma couple_diarrhea_extends:
  "\<exists>new. diseases (couple_diarrhea c v) = diseases v @ new \<and> distinct new \<and>
         set new \<inter> set (diseases v) = {}"
proof (cases c)
  case True
  obtain n1 where n1: "ensure ''Cholera'' (diseases v) = diseases v @ n1" "distinct n1"
    "set n1 \<inter> set (diseases v) = {}"
    using ensure_extends [of "diseases v" "diseases v" "[]" "''Cholera''"] by auto
  obtain n2 where n2: "ensure ''Typhoid'' (ensure ''Cholera'' (diseases v)) = diseases v @ n2"
    "distinct n2" "set n2 \<inter> set (diseases v) = {}"
    using ensure_extends [OF n1, of "''Typhoid''"] by auto
  obtain n3 where "ensure ''Gastroenteritis'' (ensure ''Typhoid'' (ensure ''Cholera'' (diseases v)))
      = diseases v @ n3" "distinct n3" "set n3 \<inter> set (diseases v) = {}"
    using ensure_extends [OF n2, of "''Gastroenteritis''"] by auto
  with True show ?thesis
    by (auto simp: couple_diarrhea_def)
next
  case False
  then show ?thesis
    by simp
qed

lemma couple_jaundice_extends:
  "\<exists>new. diseases (couple_jaundice c v) = diseases v @ new \<and> distinct new \<and>
         set new \<inter> set (diseases v) = {}"
  using ensure_extends [of "diseases v" "diseases v" "[]" "''Hepatitis A''"]
  by (cases c) (auto simp: couple_jaundice_def)

lemma set_diseases_couple_diarrhea:
  "set (diseases (couple_diarrhea c v)) =
     set (diseases v) \<union> (if c then {''Cholera'', ''Typhoid'', ''Gastroenteritis''} else {})"
  by (auto simp: couple_diarrhea_def)

lemma set_diseases_couple_jaundice:
  "set (diseases (couple_jaundice c v)) = set (diseases v) \<union> (if c then {''Hepatitis A''} else {})"
  by (auto simp: couple_jaundice_def)

lemma set_diseases_run_rules:
  "set (diseases (run_rules (stext, ph, turb, ecoli, coli, hp, ars, fl, nit, pb))) =
     (if flt ph SAFE_pH_min \<or> fgt ph SAFE_pH_max
        then {''Metal leaching / gastritis / skin irritation''} else {})
   \<union> (if fgt turb (Fin 30) then {''Pathogens likely; chlorination failure''}
        else if fgt turb SAFE_turbidity_max then {''Pathogens may survive; diarrhea risk''}
        else {})
   \<union> (if fgt ecoli (Fin 0) then {''Diarrhea'', ''Cholera'', ''Typhoid''} else {})
   \<union> (if fgt coli (Fin 0) then {''Gastroenteritis'', ''Hepatitis A''} else {})
   \<union> (if fgt hp SAFE_hpc_max then {''Opportunistic infections''} else {})
   \<union> (if fgt ars SAFE_arsenic_max then {''Arsenicosis / cancer risk''} else {})
   \<union> (if fgt fl SAFE_fluoride_max then {''Dental/Skeletal fluorosis''} else {})
   \<union> (if fgt nit SAFE_nitrate_max then {''Methemoglobinemia (Blue Baby)''} else {})
   \<union> (if fgt pb SAFE_lead_max then {''Neurotoxicity / developmental issues''} else {})
   \<union> (if str_in ''diarrhea'' stext \<and>
           (fgt ecoli (Fin 0) \<or> fgt coli (Fin 0) \<or> fgt turb SAFE_turbidity_max)
        then {''Cholera'', ''Typhoid'', ''Gastroenteritis''} else {})
   \<union> (if str_in ''jaundice'' stext \<and> (fgt coli (Fin 0) \<or> fgt ecoli (Fin 0))
        then {''Hepatitis A''} else {})"
  by (cases "fgt turb (Fin 30)"; cases "fgt turb SAFE_turbidity_max")
     (simp_all add: run_rules_def Let_def set_diseases_couple_diarrhea
        set_diseases_couple_jaundice turbidity_rule_diseases if_distrib [of set] Un_assoc
        del: if_split cong: if_cong)

lemma count_list_distinct: "distinct xs \<Longrightarrow> x \<in> set xs \<Longrightarrow> count_list xs x = 1"
  by (induction xs) auto

lemma float_of_int_overflow: "float_of_int (2 ^ 1024) = None"
proof -
  have "bitlen (1 :: int) = 1"
    by (subst compute_bitlen) simp
  with bitlen_pow2 [of 1 1024] have "bitlen (2 ^ 1024 :: int) = 1025"
    by simp
  then show ?thesis
    by (simp add: float_of_int_def)
qed

text \<open>
  C8, as stated, fails: a bacteria count above 0 that \<^verbatim>\<open>float\<close> rejects is read as 0.0.
  The report with symptoms "diarrhea" and the bacteria count \<open>2 ^ 1024\<close> gets no disease
  at all.
\<close>

theorem diarrhea_with_ecoli_counterexample:
  "str_in ''diarrhea'' (lower (str_or (symptoms overflow_report) '''')) \<and>
   bacteria_count overflow_report = PInt (2 ^ 1024) \<and> (0 :: int) < 2 ^ 1024 \<and>
   likely_diseases (score_and_infer no_parse overflow_report) = [] \<and>
   count_list (likely_diseases (score_and_infer no_parse overflow_report)) ''Cholera'' \<noteq> 1"
proof -
  have count: "bacteria_count overflow_report = PInt (2 ^ 1024)"
    by (simp add: overflow_report_def)
  have "get_float no_parse (PInt (2 ^ 1024)) (Fin 0) = Fin 0"
    unfolding get_float_def py_float.simps float_of_int_overflow by simp
  then have read: "get_float no_parse (bacteria_count overflow_report) (Fin 0) = Fin 0"
    by (simp only: count)
  have fields: "symptoms overflow_report = Some ''diarrhea''" "pH overflow_report = PNone"
    "turbidity overflow_report = PNone" "coliforms overflow_report = PNone"
    "hpc overflow_report = PNone" "arsenic overflow_report = PNone"
    "fluoride overflow_report = PNone" "nitrate overflow_report = PNone"
    "lead overflow_report = PNone"
    by (simp_all add: overflow_report_def empty_report_def)
  have r: "read_report no_parse overflow_report
             = (''diarrhea'', Fin 7, Fin 0, Fin 0, Fin 0, Fin 0, Fin 0, Fin 0, Fin 0, Fin 0)"
    by (simp add: read_report_def fields read str_or_def lower_lower_case)
  have d: "diseases (run_rules
             (''diarrhea'', Fin 7, Fin 0, Fin 0, Fin 0, Fin 0, Fin 0, Fin 0, Fin 0, Fin 0)) = []"
    by (simp add: run_rules_def turbidity_rule_diseases fgt_def SAFE_defs)
  have "str_in ''diarrhea'' (lower (str_or (symptoms overflow_report) ''''))"
    by (simp add: fields str_or_def lower_lower_case)
  with count show ?thesis
    by (simp add: score_and_infer_fields r d)
qed

text \<open>
  C8, amended. When the symptom text contains "diarrhea" and the E. coli count, as
  \<^verbatim>\<open>_get_float\<close> reads it (a count that \<^verbatim>\<open>float\<close> rejects is read as 0.0), is above 0,
  Cholera, Typhoid, Gastroenteritis and Diarrhea are each in \<open>likely_diseases\<close> exactly
  once. The coupling blocks leave the score alone, and what they append to \<^verbatim>\<open>diseases\<close>
  was not in it.
\<close>

theorem diarrhea_with_ecoli:
  assumes "str_in ''diarrhea'' (lower (str_or (symptoms r) ''''))"
    and "fgt (get_float parse (bacteria_count r) (Fin 0)) (Fin 0)"
  shows "count_list (likely_diseases (score_and_infer parse r)) ''Cholera'' = 1 \<and>
         count_list (likely_diseases (score_and_infer parse r)) ''Typhoid'' = 1 \<and>
         count_list (likely_diseases (score_and_infer parse r)) ''Gastroenteritis'' = 1 \<and>
         count_list (likely_diseases (score_and_infer parse r)) ''Diarrhea'' = 1 \<and>
         vars.score (couple_diarrhea c v) = vars.score v \<and>
         vars.score (couple_jaundice c v) = vars.score v \<and>
         (\<exists>new. diseases (couple_diarrhea c v) = diseases v @ new \<and> distinct new \<and>
                 set new \<inter> set (diseases v) = {}) \<and>
         (\<exists>new. diseases (couple_jaundice c v) = diseases v @ new \<and> distinct new \<and>
                 set new \<inter> set (diseases v) = {})"
proof -
  have "{''Cholera'', ''Typhoid'', ''Gastroenteritis'', ''Diarrhea''}
          \<subseteq> set (diseases (run_rules (read_report parse r)))"
    using assms by (simp add: read_report_def Let_def set_diseases_run_rules)
  then have "{''Cholera'', ''Typhoid'', ''Gastroenteritis'', ''Diarrhea''}
          \<subseteq> set (likely_diseases (score_and_infer parse r))"
    by (simp add: score_and_infer_fields set_dedup_loop)
  moreover have "distinct (likely_diseases (score_and_infer parse r))"
    by (simp add: score_and_infer_fields distinct_dedup_loop)
  ultimately show ?thesis
    using couple_diarrhea_extends [of c v] couple_jaundice_extends [of c v]
    by (simp add: count_list_distinct)
qed

text \<open>The report with symptoms "severe diarrhea and fever" and a bacteria count of 5.\<close>

theorem diarrhea_with_ecoli_witness:
  "likely_diseases (score_and_infer no_parse
      (empty_report\<lparr>symptoms := Some ''severe diarrhea and fever'', bacteria_count := PInt 5\<rparr>))
     = [''Diarrhea'', ''Cholera'', ''Typhoid'', ''Gastroenteritis''] \<and>
   count_list (likely_diseases (score_and_infer no_parse
      (empty_report\<lparr>symptoms := Some ''severe diarrhea and fever'', bacteria_count := PInt 5\<rparr>)))
     ''Gastroenteritis'' = 1"
proof -
  have r: "read_report no_parse
      (empty_report\<lparr>symptoms := Some ''severe diarrhea and fever'', bacteria_count := PInt 5\<rparr>)
    = (''severe diarrhea and fever'', Fin 7, Fin 0, Fin 5, Fin 0, Fin 0, Fin 0, Fin 0, Fin 0, Fin 0)"
    by (simp add: read_report_def empty_report_def str_or_def get_float_PInt lower_lower_case)
  have d: "diseases (run_rules
      (''severe diarrhea and fever'', Fin 7, Fin 0, Fin 5, Fin 0, Fin 0, Fin 0, Fin 0, Fin 0, Fin 0))
    = [''Diarrhea'', ''Cholera'', ''Typhoid'', ''Gastroenteritis'']"
    by (simp add: run_rules_def turbidity_rule_diseases couple_diarrhea_def ensure_def fgt_def
        SAFE_defs)
  have "str_in ''diarrhea'' (lower (str_or (symptoms
      (empty_report\<lparr>symptoms := Some ''severe diarrhea and fever'', bacteria_count := PInt 5\<rparr>)) ''''))"
    by (simp add: lower_lower_case str_or_def)
  moreover have "fgt (get_float no_parse (bacteria_count
      (empty_report\<lparr>symptoms := Some ''severe diarrhea and fever'', bacteria_count := PInt 5\<rparr>))
      (Fin 0)) (Fin 0)"
    by (simp add: get_float_PInt fgt_def)
  ultimately show ?thesis
    using diarrhea_with_ecoli [of "empty_report\<lparr>symptoms := Some ''severe diarrhea and fever'',
      bacteria_count := PInt 5\<rparr>" no_parse]
    by (simp add: score_and_infer_fields r d)
qed

text \<open>
  C5. The turbidity checks exclude each other and the first that matches wins: of the three
  turbidity issues, \<open>issues_found\<close> holds the one of the first test that holds, and no
  other. At turbidity 40 that is "Very high turbidity" alone; the score is 4 more than
  without the turbidity reading, the other issues are those without it, and the disease of
  the branch above 5 is not listed.
\<close>

theorem turbidity_first_match:
  "filter (\<lambda>i. i \<in> {''Very high turbidity'', ''High turbidity'', ''Turbidity above ideal''})
      (issues_found (score_and_infer parse r)) =
     (if fgt (get_float parse (turbidity r) (Fin 0)) (Fin 30) then [''Very high turbidity'']
      else if fgt (get_float parse (turbidity r) (Fin 0)) SAFE_turbidity_max
        then [''High turbidity'']
      else if fgt (get_float parse (turbidity r) (Fin 0)) SAFE_turbidity_ideal
        then [''Turbidity above ideal'']
      else []) \<and>
   (get_float parse (turbidity r) (Fin 0) = Fin 40 \<longrightarrow>
      filter (\<lambda>i. i \<in> {''Very high turbidity'', ''High turbidity'', ''Turbidity above ideal''})
        (issues_found (score_and_infer parse r)) = [''Very high turbidity''] \<and>
      score (score_and_infer parse r) = score (score_and_infer parse (r\<lparr>turbidity := PNone\<rparr>)) + 4 \<and>
      filter (\<lambda>i. i \<noteq> ''Very high turbidity'') (issues_found (score_and_infer parse r)) =
        issues_found (score_and_infer parse (r\<lparr>turbidity := PNone\<rparr>)) \<and>
      ''Pathogens may survive; diarrhea risk'' \<notin> set (likely_diseases (score_and_infer parse r)))"
proof -
  let ?t = "get_float parse (turbidity r) (Fin 0)"
  have general: "filter (\<lambda>i. i \<in> {''Very high turbidity'', ''High turbidity'', ''Turbidity above ideal''})
      (issues_found (score_and_infer parse r)) =
     (if fgt ?t (Fin 30) then [''Very high turbidity'']
      else if fgt ?t SAFE_turbidity_max then [''High turbidity'']
      else if fgt ?t SAFE_turbidity_ideal then [''Turbidity above ideal'']
      else [])"
    by (cases "fgt ?t (Fin 30)"; cases "fgt ?t SAFE_turbidity_max";
        cases "fgt ?t SAFE_turbidity_ideal")
       (simp_all add: score_and_infer_fields run_rules_issues read_report_def Let_def fired_def
          issue_names_def if_distrib [of "filter _"] del: if_split cong: if_cong)
  have at40: "score (score_and_infer parse r)
                = score (score_and_infer parse (r\<lparr>turbidity := PNone\<rparr>)) + 4"
    "filter (\<lambda>i. i \<noteq> ''Very high turbidity'') (issues_found (score_and_infer parse r)) =
       issues_found (score_and_infer parse (r\<lparr>turbidity := PNone\<rparr>))"
    "''Pathogens may survive; diarrhea risk'' \<notin> set (likely_diseases (score_and_infer parse r))"
    if "?t = Fin 40"
  proof -
    have t: "fgt ?t (Fin 30)" "fgt ?t SAFE_turbidity_max" "fgt ?t SAFE_turbidity_ideal"
      "\<not> fgt (Fin 0) (Fin 30)" "\<not> fgt (Fin 0) SAFE_turbidity_max"
      "\<not> fgt (Fin 0) SAFE_turbidity_ideal"
      by (simp_all add: that fgt_def SAFE_defs)
    show "score (score_and_infer parse r)
            = score (score_and_infer parse (r\<lparr>turbidity := PNone\<rparr>)) + 4"
      by (simp add: score_and_infer_fields run_rules_score read_report_def Let_def fired_def
          points_def t del: if_split cong: if_cong)
    show "filter (\<lambda>i. i \<noteq> ''Very high turbidity'') (issues_found (score_and_infer parse r)) =
       issues_found (score_and_infer parse (r\<lparr>turbidity := PNone\<rparr>))"
      by (simp add: score_and_infer_fields run_rules_issues read_report_def Let_def fired_def
          issue_names_def if_distrib [of "filter _"] t del: if_split cong: if_cong)
    show "''Pathogens may survive; diarrhea risk'' \<notin> set (likely_diseases (score_and_infer parse r))"
      by (simp add: score_and_infer_fields set_dedup_loop read_report_def Let_def
          set_diseases_run_rules t)
  qed
  show ?thesis
    using general at40 by (simp add: fgt_def)
qed

text \<open>A report whose only reading is turbidity 40.\<close>

theorem turbidity_first_match_witness:
  "get_float no_parse (turbidity (empty_report\<lparr>turbidity := PInt 40\<rparr>)) (Fin 0) = Fin 40 \<and>
   issues_found (score_and_infer no_parse (empty_report\<lparr>turbidity := PInt 40\<rparr>))
     = [''Very high turbidity''] \<and>
   score (score_and_infer no_parse (empty_report\<lparr>turbidity := PInt 40\<rparr>)) = 4 \<and>
   score (score_and_infer no_parse (empty_report\<lparr>turbidity := PInt 40\<rparr>)) =
     score (score_and_infer no_parse (empty_report\<lparr>turbidity := PInt 40, turbidity := PNone\<rparr>)) + 4 \<and>
   ''Pathogens may survive; diarrhea risk''
     \<notin> set (likely_diseases (score_and_infer no_parse (empty_report\<lparr>turbidity := PInt 40\<rparr>)))"
proof -
  have r: "read_report no_parse (empty_report\<lparr>turbidity := PInt 40\<rparr>)
             = ('''', Fin 7, Fin 40, Fin 0, Fin 0, Fin 0, Fin 0, Fin 0, Fin 0, Fin 0)"
    by (simp add: read_report_def empty_report_def str_or_def get_float_PInt lower_def)
  have i: "issues_found (score_and_infer no_parse (empty_report\<lparr>turbidity := PInt 40\<rparr>))
             = [''Very high turbidity'']"
    by (simp add: score_and_infer_fields run_rules_issues r fired_def issue_names_def fgt_def
        SAFE_defs)
  have s: "score (score_and_infer no_parse (empty_report\<lparr>turbidity := PInt 40\<rparr>)) = 4"
    by (simp add: score_and_infer_fields run_rules_score r fired_def points_def fgt_def SAFE_defs)
  show ?thesis
    using turbidity_first_match [of no_parse "empty_report\<lparr>turbidity := PInt 40\<rparr>"]
    by (simp add: get_float_PInt i s)
qed

section \<open>Facts about the aggregator\<close>

lemma counter_get_Nil [simp]: "counter_get [] k = 0"
  by (simp add: counter_get_def)

lemma counter_get_Cons [simp]:
  "counter_get ((k', n) # c) k = (if k' = k then n else counter_get c k)"
  by (simp add: counter_get_def)

lemma counter_get_counter_add:
  "counter_get (counter_add k c) k' = counter_get c k' + (if k' = k then 1 else 0)"
  by (induction c) auto

lemma counter_get_add_all: "counter_get (add_all ks c) k = counter_get c k + count_list ks k"
  unfolding add_all_def
  by (induction ks arbitrary: c) (auto simp: counter_get_counter_add)

lemma counter_get_Counter: "counter_get (Counter ks) k = count_list ks k"
  by (simp add: Counter_def counter_get_add_all)

lemma count_list_map_filter:
  "count_list (map f xs) y = length (filter (\<lambda>x. f x = y) xs)"
  by (induction xs) auto

text \<open>
  Why the test on 0.33 can be taken on the quotient itself. Let \<open>rnd\<close> round a real to a
  double: it is monotone, leaves the doubles \<open>d\<close> (the double of \<^verbatim>\<open>0.33\<close>) and \<open>p\<close> (the
  double just below) alone, and takes a real between them to the nearer one. Then for
  counts \<open>h\<close> and \<open>t\<close> with \<open>t\<close> below \<open>8 * 10 ^ 14\<close>, the rounded quotient is at least
  \<open>d\<close> exactly when the quotient is at least 33/100.
\<close>

lemma true_division_threshold:
  fixes rnd :: "real \<Rightarrow> real" and h t :: nat
  defines "d \<equiv> 5944751508129055 / 2 ^ 54" and "p \<equiv> 5944751508129054 / 2 ^ 54"
  assumes mono: "\<And>x y. x \<le> y \<Longrightarrow> rnd x \<le> rnd y"
    and fixed: "rnd d = d" "rnd p = p"
    and nearest: "\<And>x. p \<le> x \<Longrightarrow> x \<le> d \<Longrightarrow>
                    (x - p < d - x \<longrightarrow> rnd x = p) \<and> (d - x < x - p \<longrightarrow> rnd x = d)"
    and t: "0 < t" "t < 8 * 10 ^ 14"
  shows "(rnd (real h / real t) \<ge> d) = (real h / real t \<ge> 0.33)"
proof -
  define q where "q = real h / real t"
  define c :: real where "c = 33 / 100"
  define e :: real where "e = 1 / (100 * (8 * 10 ^ 14))"
  define u where "u = 1 / (100 * real t)"
  have pd: "p < d" "p < c" "c < d" "d - c < c - p" "2 * (c - e) \<le> p + d"
    by (simp_all add: d_def p_def c_def e_def)
  have "(rnd q \<ge> d) = (q \<ge> c)"
  proof (cases "q \<ge> c")
    case True
    have "rnd q \<ge> d"
    proof (cases "d \<le> q")
      case True
      from mono [OF this] show ?thesis
        by (simp add: fixed)
    next
      case False
      with True pd have "p \<le> q" "q \<le> d" "d - q < q - p"
        by argo+
      with nearest [of q] show ?thesis
        by simp
    qed
    with True show ?thesis
      by simp
  next
    case False
    with t have "100 * h < 33 * t"
      by (simp add: q_def c_def field_simps)
    then have "100 * h + 1 \<le> 33 * t"
      by simp
    then have "real (100 * h + 1) \<le> real (33 * t)"
      by (rule iffD2 [OF of_nat_le_iff])
    then have h: "100 * real h + 1 \<le> 33 * real t"
      by simp
    from t(2) have "real t < real (8 * 10 ^ 14)"
      by (rule iffD2 [OF of_nat_less_iff])
    then have t': "real t < 8 * 10 ^ 14" "0 < real t"
      using t(1) by simp_all
    have "q \<le> c - u"
      using h t'(2) by (simp add: q_def c_def u_def field_simps)
    moreover have "e < u"
      using t' by (simp add: e_def u_def field_simps)
    ultimately have q: "2 * q < p + d"
      using pd(5) by argo
    have "rnd q \<le> p"
    proof (cases "p \<le> q")
      case True
      moreover from q pd(1) have "q \<le> d" "q - p < d - q"
        by argo+
      ultimately show ?thesis
        using nearest [of q] by simp
    next
      case False
      then have "q \<le> p"
        by simp
      from mono [OF this] show ?thesis
        by (simp add: fixed)
    qed
    with pd(1) have "\<not> rnd q \<ge> d"
      by argo
    with False show ?thesis
      by simp
  qed
  then show ?thesis
    by (simp add: q_def c_def)
qed

lemma overall_risk_counts:
  "rs \<noteq> [] \<Longrightarrow> overall_risk_from_reports rs =
     (if real (length (filter (\<lambda>e. risk_level (snd e) = ''High'') rs)) / real (length rs) \<ge> 0.33
        then ''High''
      else if real (length (filter (\<lambda>e. risk_level (snd e) = ''Medium'') rs)) / real (length rs)
                \<ge> 0.33
        then ''Medium''
      else ''Low'')"
  by (simp add: overall_risk_from_reports_def Let_def counter_get_Counter count_list_map_filter)

lemma example_risk_levels:
  "risk_level (snd (scored high_report)) = ''High''"
  "risk_level (snd (scored medium_report)) = ''Medium''"
  "risk_level (snd (scored empty_report)) = ''Low''"
proof -
  have "read_report no_parse high_report
          = (''diarrhea'', Fin 7, Fin 0, Fin 0, Fin 1, Fin 0, Fin 0, Fin 0, Fin 0, Fin 0)"
    by (simp add: high_report_def read_report_def empty_report_def str_or_def get_float_PInt
        lower_lower_case)
  then show "risk_level (snd (scored high_report)) = ''High''"
    by (simp add: scored_def score_and_infer_fields run_rules_score fired_def points_def
        fgt_def SAFE_defs risk_bucket_def)
  have "read_report no_parse medium_report
          = (''diarrhea'', Fin 7, Fin 0, Fin 0, Fin 0, Fin 0, Fin 0, Fin 0, Fin 0, Fin 0)"
    by (simp add: medium_report_def read_empty_report lower_lower_case)
  then show "risk_level (snd (scored medium_report)) = ''Medium''"
    by (simp add: scored_def score_and_infer_fields run_rules_score fired_def points_def
        fgt_def SAFE_defs risk_bucket_def)
  have "read_report no_parse empty_report
          = ('''', Fin 7, Fin 0, Fin 0, Fin 0, Fin 0, Fin 0, Fin 0, Fin 0, Fin 0)"
    by (simp add: read_report_def empty_report_def str_or_def lower_def)
  then show "risk_level (snd (scored empty_report)) = ''Low''"
    by (simp add: scored_def score_and_infer_fields run_rules_score fired_def points_def
        fgt_def SAFE_defs risk_bucket_def)
qed

text \<open>
  C3. No report gives "No Data". Otherwise the verdict is High when the reports of High
  risk are at least 0.33 of all reports; else Medium when those of Medium risk are at least
  0.33 of all reports; else Low. High is tested first: when both fractions reach 0.33 the
  verdict is High.
\<close>

theorem overall_risk_verdict:
  "overall_risk_from_reports [] = ''No Data'' \<and>
   (rs \<noteq> [] \<longrightarrow>
      overall_risk_from_reports rs =
        (if real (length (filter (\<lambda>e. risk_level (snd e) = ''High'') rs)) / real (length rs) \<ge> 0.33
           then ''High''
         else if real (length (filter (\<lambda>e. risk_level (snd e) = ''Medium'') rs)) / real (length rs)
                   \<ge> 0.33
           then ''Medium''
         else ''Low'')) \<and>
   (rs \<noteq> [] \<and>
    real (length (filter (\<lambda>e. risk_level (snd e) = ''High'') rs)) / real (length rs) \<ge> 0.33 \<and>
    real (length (filter (\<lambda>e. risk_level (snd e) = ''Medium'') rs)) / real (length rs) \<ge> 0.33 \<longrightarrow>
      overall_risk_from_reports rs = ''High'')"
  using overall_risk_counts [of rs] by (simp add: overall_risk_from_reports_def)

text \<open>
  One High and one Medium report: both fractions are 1/2, the verdict is High. One Medium
  and two Low reports: the verdict is Medium. One Low report: Low.
\<close>

theorem overall_risk_verdict_witness:
  "overall_risk_from_reports [scored high_report, scored medium_report] = ''High'' \<and>
   overall_risk_from_reports [scored medium_report, scored empty_report, scored empty_report]
     = ''Medium'' \<and>
   overall_risk_from_reports [scored empty_report] = ''Low''"
  using overall_risk_verdict [of "[scored high_report, scored medium_report]"]
    overall_risk_verdict [of "[scored medium_report, scored empty_report, scored empty_report]"]
    overall_risk_verdict [of "[scored empty_report]"]
  by (simp add: example_risk_levels)

text \<open>
  C4, as stated, fails: on three entries of risk levels High, Medium and Low the High
  fraction is 1/3, which is at least 0.33, and the verdict is High, not Low.
\<close>

theorem overall_risk_high_medium_low_counterexample:
  "risk_level (snd (scored high_report)) = ''High'' \<and>
   risk_level (snd (scored medium_report)) = ''Medium'' \<and>
   risk_level (snd (scored empty_report)) = ''Low'' \<and>
   overall_risk_from_reports [scored high_report, scored medium_report, scored empty_report]
     \<noteq> ''Low''"
  by (simp add: example_risk_levels overall_risk_counts)

text \<open>
  C4, amended. On three entries whose risk levels are High, Medium and Low, in this order,
  the verdict is High.
\<close>

theorem overall_risk_high_medium_low:
  assumes "map (\<lambda>e. risk_level (snd e)) rs = [''High'', ''Medium'', ''Low'']"
  shows "overall_risk_from_reports rs = ''High''"
proof -
  from assms obtain a b c where rs: "rs = [a, b, c]" and
    "risk_level (snd a) = ''High''" "risk_level (snd b) = ''Medium''" "risk_level (snd c) = ''Low''"
    by auto
  then show ?thesis
    by (simp add: overall_risk_counts)
qed

theorem overall_risk_high_medium_low_witness:
  "overall_risk_from_reports [scored high_report, scored medium_report, scored empty_report]
     = ''High''"
  by (rule overall_risk_high_medium_low) (simp add: example_risk_levels)

text \<open>A stable sort keeps, among items of equal key, the order they came in.\<close>

lemma insort_key_ranked:
  fixes f :: "'a \<Rightarrow> 'k::linorder"
  assumes "sorted_wrt (\<lambda>a b. f a < f b \<or> (f a = f b \<and> P a b)) ys" and "\<forall>y \<in> set ys. P x y"
  shows "sorted_wrt (\<lambda>a b. f a < f b \<or> (f a = f b \<and> P a b)) (insort_key f x ys)"
  using assms
proof (induction ys)
  case Nil
  then show ?case by simp
next
  case (Cons y ys)
  show ?case
  proof (cases "f x \<le> f y")
    case True
    have "f x < f z \<or> (f x = f z \<and> P x z)" if "z \<in> set (y # ys)" for z
    proof -
      from that Cons.prems(1) have "f y \<le> f z"
        by auto
      with True have "f x \<le> f z"
        by simp
      with that Cons.prems(2) show ?thesis
        by auto
    qed
    with True Cons.prems(1) show ?thesis
      by simp
  next
    case False
    with Cons show ?thesis
      by (auto simp: set_insort_key)
  qed
qed

lemma sort_key_ranked:
  fixes f :: "'a \<Rightarrow> 'k::linorder"
  assumes "sorted_wrt P xs"
  shows "sorted_wrt (\<lambda>a b. f a < f b \<or> (f a = f b \<and> P a b)) (sort_key f xs)"
  using assms
proof (induction xs)
  case Nil
  then show ?case by simp
next
  case (Cons x xs)
  then have "sorted_wrt (\<lambda>a b. f a < f b \<or> (f a = f b \<and> P a b))
               (insort_key f x (sort_key f xs))"
    by (intro insort_key_ranked) simp_all
  then show ?case
    by (simp add: sort_key_def)
qed

lemma distinct_map_insort_key:
  "distinct (map g (insort_key f x ys)) = (g x \<notin> g ` set ys \<and> distinct (map g ys))"
  by (induction ys) (auto simp: set_insort_key)

lemma distinct_map_sort_key: "distinct (map g (sort_key f xs)) = distinct (map g xs)"
proof (induction xs)
  case Nil
  then show ?case by simp
next
  case (Cons x xs)
  have "sort_key f (x # xs) = insort_key f x (sort_key f xs)"
    by (simp add: sort_key_def)
  with Cons show ?case
    by (simp add: distinct_map_insort_key)
qed

text \<open>Cutting a ranked list of all the values of a stream after \<open>n\<close> gives its top \<open>n\<close>.\<close>

lemma top_by_frequency_take:
  assumes "sorted_wrt (ranks_before xs) l" "distinct l" "set l = set xs"
  shows "top_by_frequency n xs (take n l)"
proof -
  have l: "l = take n l @ drop n l"
    by simp
  have "sorted_wrt (ranks_before xs) (take n l @ drop n l)"
    using assms(1) by simp
  then have sorted: "sorted_wrt (ranks_before xs) (take n l)"
    and before: "\<forall>y \<in> set (take n l). \<forall>x \<in> set (drop n l). ranks_before xs y x"
    unfolding sorted_wrt_append by simp_all
  have "length (take n l) = n \<and> (\<forall>y \<in> set (take n l). ranks_before xs y x)"
    if "x \<in> set xs - set (take n l)" for x
  proof -
    from that assms(3) have "x \<in> set (take n l @ drop n l)" "x \<notin> set (take n l)"
      by simp_all
    then have x: "x \<in> set (drop n l)"
      by (simp only: set_append Un_iff) blast
    then have "n < length l"
      by (cases "n < length l") simp_all
    with x before show ?thesis
      by simp
  qed
  moreover have "set (take n l) \<subseteq> set xs"
    using assms(3) set_take_subset [of n l] by simp
  ultimately show ?thesis
    using sorted assms(2) by (simp add: top_by_frequency_def)
qed

text \<open>Counters: the keys are the values counted, in first-occurrence order.\<close>

lemma keys_counter_add:
  "map fst (counter_add k c) = (if k \<in> set (map fst c) then map fst c else map fst c @ [k])"
proof (induction c)
  case Nil
  then show ?case by simp
next
  case (Cons kn c)
  then show ?case
    by (cases kn) force
qed

lemma add_all_Cons: "add_all (k # ks) c = add_all ks (counter_add k c)"
  by (simp add: add_all_def)

lemma add_all_append: "add_all (ks @ ks') c = add_all ks' (add_all ks c)"
  by (simp add: add_all_def)

lemma keys_add_all:
  "map fst (add_all ks c) = map fst c @ dedup_loop ks (set (map fst c)) []"
proof (induction ks arbitrary: c)
  case Nil
  then show ?case by (simp add: add_all_def)
next
  case (Cons k ks)
  show ?case
    by (simp add: add_all_Cons Cons keys_counter_add dedup_loop_Cons del: dedup_loop.simps(2))
qed

lemma counter_get_entry: "distinct (map fst c) \<Longrightarrow> (k, n) \<in> set c \<Longrightarrow> counter_get c k = n"
  by (simp add: counter_get_def)

lemma most_common_top:
  "top_by_frequency n xs (map fst (most_common n (add_all xs [])))"
proof -
  let ?c = "add_all xs []"
  let ?f = "\<lambda>(k, cnt). - int cnt"
  let ?P = "\<lambda>a b. first_index xs (fst a) < first_index xs (fst b)"
  have keys: "map fst ?c = dedup_loop xs {} []"
    by (simp add: keys_add_all)
  then have distinct: "distinct (map fst ?c)"
    by (simp add: distinct_dedup_loop)
  have count: "n = count_list xs k" if "(k, n) \<in> set ?c" for k n
    using counter_get_entry [OF distinct that] by (simp add: counter_get_add_all)
  have "sorted_wrt (\<lambda>x y. first_index xs x < first_index xs y) (map fst ?c)"
    by (simp add: keys first_occurrences_dedup_loop)
  then have "sorted_wrt ?P ?c"
    by (simp add: sorted_wrt_map)
  then have "sorted_wrt (\<lambda>a b. ?f a < ?f b \<or> (?f a = ?f b \<and> ?P a b)) (sort_key ?f ?c)"
    by (rule sort_key_ranked)
  then have "sorted_wrt (\<lambda>a b. ranks_before xs (fst a) (fst b)) (sort_key ?f ?c)"
  proof (rule sorted_wrt_mono_rel [rotated])
    fix a b
    assume "a \<in> set (sort_key ?f ?c)" "b \<in> set (sort_key ?f ?c)"
      and "?f a < ?f b \<or> (?f a = ?f b \<and> ?P a b)"
    then show "ranks_before xs (fst a) (fst b)"
      using count [of "fst a" "snd a"] count [of "fst b" "snd b"]
      by (auto simp: ranks_before_def split: prod.splits)
  qed
  then have "sorted_wrt (ranks_before xs) (map fst (sort_key ?f ?c))"
    by (simp add: sorted_wrt_map)
  moreover have "distinct (map fst (sort_key ?f ?c))"
    by (simp add: distinct_map_sort_key distinct)
  moreover have "set (map fst ?c) = set xs"
    by (simp only: keys set_dedup_loop) simp
  then have "set (map fst (sort_key ?f ?c)) = set xs"
    by simp
  ultimately have "top_by_frequency n xs (take n (map fst (sort_key ?f ?c)))"
    by (rule top_by_frequency_take)
  then show ?thesis
    by (simp add: most_common_def take_map)
qed

text \<open>The loop of the aggregator.\<close>

lemma issues_at_Cons:
  "issues_at parse loc (r # rs) =
     (if str_or (report.location r) ''Unknown'' = loc
      then issues_found (score_and_infer parse r) @ issues_at parse loc rs
      else issues_at parse loc rs)"
  by (simp add: issues_at_def)

lemma diseases_at_Cons:
  "diseases_at parse loc (r # rs) =
     (if str_or (report.location r) ''Unknown'' = loc
      then likely_diseases (score_and_infer parse r) @ diseases_at parse loc rs
      else diseases_at parse loc rs)"
  by (simp add: diseases_at_def)

lemma aggregate_report_fields:
  "loc_issues (aggregate_report parse a r) =
     (loc_issues a)(str_or (report.location r) ''Unknown'' :=
        add_all (issues_found (score_and_infer parse r))
          (loc_issues a (str_or (report.location r) ''Unknown'')))"
  "loc_diseases (aggregate_report parse a r) =
     (loc_diseases a)(str_or (report.location r) ''Unknown'' :=
        add_all (likely_diseases (score_and_infer parse r))
          (loc_diseases a (str_or (report.location r) ''Unknown'')))"
  "loc_risk (aggregate_report parse a r) =
     (loc_risk a)(str_or (report.location r) ''Unknown'' :=
        counter_add (risk_level (score_and_infer parse r))
          (loc_risk a (str_or (report.location r) ''Unknown'')))"
  "loc_symptoms (aggregate_report parse a r) =
     (loc_symptoms a)(str_or (report.location r) ''Unknown'' :=
        add_all (filter (\<lambda>key. str_in key (lower (str_or (symptoms r) ''''))) SYMPTOM_KEYS)
          (loc_symptoms a (str_or (report.location r) ''Unknown'')))"
  "per_report (aggregate_report parse a r) = per_report a @ [(r, score_and_infer parse r)]"
  by (simp_all add: aggregate_report_def Let_def)

lemma foldl_aggregate_report:
  "loc_issues (foldl (aggregate_report parse) a rs) loc =
     add_all (issues_at parse loc rs) (loc_issues a loc)"
  "loc_diseases (foldl (aggregate_report parse) a rs) loc =
     add_all (diseases_at parse loc rs) (loc_diseases a loc)"
  "per_report (foldl (aggregate_report parse) a rs) =
     per_report a @ map (\<lambda>r. (r, score_and_infer parse r)) rs"
proof (induction rs arbitrary: a)
  case Nil
  {
    case 1 show ?case by (simp add: issues_at_def add_all_def)
  next
    case 2 show ?case by (simp add: diseases_at_def add_all_def)
  next
    case 3 show ?case by simp
  }
next
  case (Cons r rs)
  {
    case 1 show ?case
      by (simp add: Cons.IH(1) aggregate_report_fields issues_at_Cons add_all_append)
  next
    case 2 show ?case
      by (simp add: Cons.IH(2) aggregate_report_fields diseases_at_Cons add_all_append)
  next
    case 3 show ?case
      by (simp add: Cons.IH(3) aggregate_report_fields)
  }
qed

text \<open>
  C9. In every location summary, \<open>top_issues\<close> and \<open>likely_diseases_top\<close> have at most 5
  entries, and they are the top 5 of the issues, and of the diseases, of the reports of
  that location: in order of falling frequency, values of equal frequency in the order they
  first occurred, and no value left out that ranks before one that is in.
\<close>

theorem top_five_by_frequency:
  assumes "snd (aggregate_location_patterns parse reports) loc = Some s"
  shows "length (top_issues s) \<le> 5 \<and> length (likely_diseases_top s) \<le> 5 \<and>
         top_by_frequency 5 (issues_at parse loc reports) (top_issues s) \<and>
         top_by_frequency 5 (diseases_at parse loc reports) (likely_diseases_top s)"
proof -
  from assms have
    "top_issues s = map fst (most_common 5 (add_all (issues_at parse loc reports) []))"
    "likely_diseases_top s = map fst (most_common 5 (add_all (diseases_at parse loc reports) []))"
    by (auto simp: aggregate_location_patterns_def Let_def foldl_aggregate_report
        split: if_splits)
  then have "top_by_frequency 5 (issues_at parse loc reports) (top_issues s)"
    "top_by_frequency 5 (diseases_at parse loc reports) (likely_diseases_top s)"
    by (simp_all add: most_common_top)
  then show ?thesis
    by (simp add: top_by_frequency_def)
qed

text \<open>The two reports from location A, scored and aggregated.\<close>

lemma score_and_infer_closed:
  "score_and_infer parse r =
     \<lparr>location = str_or (report.location r) ''Unknown'',
      score = earned (fired (read_report parse r)) points,
      risk_level = risk_bucket (earned (fired (read_report parse r)) points),
      issues_found = emitted (drop 5 (fired (read_report parse r))) issue_names,
      likely_diseases = dedup_loop (diseases (run_rules (read_report parse r))) {} []\<rparr>"
  by (simp add: score_and_infer_def Let_def run_rules_score run_rules_issues)

lemma hpc_lead_report_result:
  "score_and_infer no_parse hpc_lead_report =
     \<lparr>location = ''A'', score = 6, risk_level = ''High'',
      issues_found = [''High HPC'', ''Lead above safe limit''],
      likely_diseases = [''Opportunistic infections'', ''Neurotoxicity / developmental issues'']\<rparr>"
proof -
  have r: "read_report no_parse hpc_lead_report
             = ('''', Fin 7, Fin 0, Fin 0, Fin 0, Fin 600, Fin 0, Fin 0, Fin 0, Fin 1)"
    by (simp add: hpc_lead_report_def read_report_def empty_report_def str_or_def get_float_PInt
        lower_def)
  have d: "diseases (run_rules ('''', Fin 7, Fin 0, Fin 0, Fin 0, Fin 600, Fin 0, Fin 0, Fin 0, Fin 1))
             = [''Opportunistic infections'', ''Neurotoxicity / developmental issues'']"
    by (simp add: run_rules_def turbidity_rule_diseases fgt_def SAFE_defs)
  show ?thesis
    by (simp add: score_and_infer_closed r d fired_def points_def issue_names_def fgt_def
        SAFE_defs risk_bucket_def)
       (simp add: hpc_lead_report_def empty_report_def str_or_def)
qed

lemma foul_report_result:
  "score_and_infer no_parse foul_report =
     \<lparr>location = ''A'', score = 29, risk_level = ''High'',
      issues_found = [''Unsafe pH'', ''Very high turbidity'', ''E. coli present'',
        ''Fecal contamination (coliforms)'', ''High HPC'', ''Arsenic above safe limit'',
        ''High fluoride'', ''High nitrate'', ''Lead above safe limit''],
      likely_diseases = [''Metal leaching / gastritis / skin irritation'',
        ''Pathogens likely; chlorination failure'', ''Diarrhea'', ''Cholera'', ''Typhoid'',
        ''Gastroenteritis'', ''Hepatitis A'', ''Opportunistic infections'',
        ''Arsenicosis / cancer risk'', ''Dental/Skeletal fluorosis'',
        ''Methemoglobinemia (Blue Baby)'', ''Neurotoxicity / developmental issues'']\<rparr>"
proof -
  have r: "read_report no_parse foul_report
             = ('''', Fin 9, Fin 40, Fin 1, Fin 1, Fin 600, Fin 1, Fin 2, Fin 50, Fin 1)"
    by (simp add: foul_report_def read_report_def empty_report_def str_or_def get_float_PInt
        lower_def)
  have d: "diseases (run_rules ('''', Fin 9, Fin 40, Fin 1, Fin 1, Fin 600, Fin 1, Fin 2, Fin 50, Fin 1))
             = [''Metal leaching / gastritis / skin irritation'',
        ''Pathogens likely; chlorination failure'', ''Diarrhea'', ''Cholera'', ''Typhoid'',
        ''Gastroenteritis'', ''Hepatitis A'', ''Opportunistic infections'',
        ''Arsenicosis / cancer risk'', ''Dental/Skeletal fluorosis'',
        ''Methemoglobinemia (Blue Baby)'', ''Neurotoxicity / developmental issues'']"
    by (simp add: run_rules_def turbidity_rule_diseases fgt_def SAFE_defs)
  show ?thesis
    by (simp add: score_and_infer_closed r d fired_def points_def issue_names_def fgt_def
        SAFE_defs risk_bucket_def)
       (simp add: foul_report_def empty_report_def str_or_def)
qed

lemma example_locations:
  "str_or (report.location hpc_lead_report) ''Unknown'' = ''A''"
  "str_or (report.location foul_report) ''Unknown'' = ''A''"
  "lower (str_or (symptoms hpc_lead_report) '''') = ''''"
  "lower (str_or (symptoms foul_report) '''') = ''''"
  by (simp_all add: hpc_lead_report_def foul_report_def empty_report_def str_or_def lower_def)

lemma location_A_summary:
  "snd (aggregate_location_patterns no_parse [hpc_lead_report, foul_report]) ''A'' =
     Some \<lparr>symptom_trends = [], risk_counts = [(''High'', 2)],
       top_issues = [''High HPC'', ''Lead above safe limit'', ''Unsafe pH'',
         ''Very high turbidity'', ''E. coli present''],
       likely_diseases_top = [''Opportunistic infections'',
         ''Neurotoxicity / developmental issues'',
         ''Metal leaching / gastritis / skin irritation'',
         ''Pathogens likely; chlorination failure'', ''Diarrhea'']\<rparr>"
proof -
  let ?a = "foldl (aggregate_report no_parse)
      \<lparr>loc_symptoms = (\<lambda>loc. []), loc_diseases = (\<lambda>loc. []), loc_risk = (\<lambda>loc. []),
       loc_issues = (\<lambda>loc. []), per_report = []\<rparr> [hpc_lead_report, foul_report]"
  have issues: "map fst (most_common 5 (loc_issues ?a ''A'')) =
      [''High HPC'', ''Lead above safe limit'', ''Unsafe pH'', ''Very high turbidity'',
       ''E. coli present'']"
    by (simp add: aggregate_report_fields example_locations hpc_lead_report_result
        foul_report_result add_all_def most_common_def)
  have diseases: "map fst (most_common 5 (loc_diseases ?a ''A'')) =
      [''Opportunistic infections'', ''Neurotoxicity / developmental issues'',
       ''Metal leaching / gastritis / skin irritation'',
       ''Pathogens likely; chlorination failure'', ''Diarrhea'']"
    by (simp add: aggregate_report_fields example_locations hpc_lead_report_result
        foul_report_result add_all_def most_common_def)
  have risk: "loc_risk ?a ''A'' = [(''High'', 2)]"
    by (simp add: aggregate_report_fields example_locations hpc_lead_report_result
        foul_report_result)
  have symptoms: "loc_symptoms ?a ''A'' = []"
    by (simp add: aggregate_report_fields example_locations SYMPTOM_KEYS_def add_all_def)
  have locs: "map (\<lambda>pr. result.location (snd pr)) (per_report ?a) = [''A'', ''A'']"
    by (simp add: aggregate_report_fields hpc_lead_report_result foul_report_result)
  have "per_report ?a \<noteq> []"
    by (simp add: aggregate_report_fields)
  then show ?thesis
    unfolding aggregate_location_patterns_def Let_def snd_conv
    by (simp only: issues diseases risk symptoms locs if_False) simp
qed

text \<open>
  At location A nine different issues occur, two of them twice; the five listed are those
  two, in the order they first occurred, and then the first three of the others.
\<close>

theorem top_five_by_frequency_witness:
  "issues_at no_parse ''A'' [hpc_lead_report, foul_report] =
     [''High HPC'', ''Lead above safe limit'', ''Unsafe pH'', ''Very high turbidity'',
      ''E. coli present'', ''Fecal contamination (coliforms)'', ''High HPC'',
      ''Arsenic above safe limit'', ''High fluoride'', ''High nitrate'',
      ''Lead above safe limit''] \<and>
   map_option top_issues (snd (aggregate_location_patterns no_parse
      [hpc_lead_report, foul_report]) ''A'') =
     Some [''High HPC'', ''Lead above safe limit'', ''Unsafe pH'', ''Very high turbidity'',
       ''E. coli present''] \<and>
   top_by_frequency 5 (issues_at no_parse ''A'' [hpc_lead_report, foul_report])
     [''High HPC'', ''Lead above safe limit'', ''Unsafe pH'', ''Very high turbidity'',
      ''E. coli present''] \<and>
   top_by_frequency 5 (diseases_at no_parse ''A'' [hpc_lead_report, foul_report])
     [''Opportunistic infections'', ''Neurotoxicity / developmental issues'',
      ''Metal leaching / gastritis / skin irritation'',
      ''Pathogens likely; chlorination failure'', ''Diarrhea'']"
proof -
  have "issues_at no_parse ''A'' [hpc_lead_report, foul_report] =
     [''High HPC'', ''Lead above safe limit'', ''Unsafe pH'', ''Very high turbidity'',
      ''E. coli present'', ''Fecal contamination (coliforms)'', ''High HPC'',
      ''Arsenic above safe limit'', ''High fluoride'', ''High nitrate'',
      ''Lead above safe limit'']"
    by (simp add: issues_at_def example_locations hpc_lead_report_result foul_report_result)
  then show ?thesis
    using top_five_by_frequency [OF location_A_summary]
    by (simp add: location_A_summary)
qed

end
